theory Spec2Isabelle
  imports Main
begin

section \<open>Variables hinting of codemirror-graphql (variables/hint.js)\<close>

text \<open>
  The development embeds \<^verbatim>\<open>packages/codemirror-graphql/src/variables/hint.js\<close>:
  the type recovery \<^verbatim>\<open>getTypeInfo\<close> and the resolver \<^verbatim>\<open>getVariablesHint\<close>. The helper
  registered with the editor (lines 40-52) only passes the resolver's result on and is left out.

  JavaScript values are modelled as follows.
  \<^item> \<^verbatim>\<open>null\<close> and \<^verbatim>\<open>undefined\<close> are both \<open>None\<close>: the source only tests such
    values for truthiness or with \<^verbatim>\<open>instanceof\<close>, which do not tell them apart.
  \<^item> An object used as a dictionary (\<^verbatim>\<open>variableToType\<close>, a field map, a value map) is
    the list of its own enumerable properties in the order \<^verbatim>\<open>Object.keys\<close> lists them;
    its keys are distinct (\<open>js_object\<close>). For keys that are GraphQL names, none of which is
    an array index, this is the order in which the properties were added.
  \<^item> Reading a property of \<^verbatim>\<open>null\<close> or \<^verbatim>\<open>undefined\<close> raises; the model returns
    \<open>Inl TypeError\<close> there.
\<close>

subsection \<open>JavaScript objects and strings\<close>

datatype js_error = TypeError

type_synonym 'v js_dict = "(string \<times> 'v) list"

definition js_object :: "'v js_dict \<Rightarrow> bool" where
  "js_object obj = distinct (map fst obj)"

text \<open>\<^verbatim>\<open>Object.keys(obj)\<close>.\<close>

definition Object_keys :: "'v js_dict \<Rightarrow> string list" where
  "Object_keys obj = map fst obj"

text \<open>\<^verbatim>\<open>obj[key]\<close>, \<open>None\<close> when the object has no such property.\<close>

definition property :: "'v js_dict \<Rightarrow> string \<Rightarrow> 'v option" where
  "property obj key = map_of obj key"

text \<open>The property key a value is converted to in \<^verbatim>\<open>obj[value]\<close>: \<^verbatim>\<open>null\<close> reads the
  property named \<^verbatim>\<open>"null"\<close>.\<close>

fun propertyKey :: "string option \<Rightarrow> string" where
  "propertyKey None = ''null''"
| "propertyKey (Some s) = s"

text \<open>Truthiness of a value that is \<^verbatim>\<open>null\<close> or a string: the empty string is falsy.\<close>

fun truthy :: "string option \<Rightarrow> bool" where
  "truthy None = False"
| "truthy (Some s) = (s \<noteq> [])"

text \<open>The double quote character of the template literals.\<close>

definition dquote :: string where
  "dquote = [CHR 0x22]"

subsection \<open>Types of the graphql library\<close>

text \<open>
  The type objects of the graphql library as a closed sum: scalar, enum, input object, and the
  list and non-null wrappers. An enum carries what \<^verbatim>\<open>getValues()\<close> returns and an input
  object what \<^verbatim>\<open>getFields()\<close> returns, each keyed as \<^verbatim>\<open>Object.keys\<close> sees it (a map
  by its names, an array by its indices).
\<close>

datatype gql_type =
    GraphQLScalarType string
  | GraphQLEnumType string "(string \<times> enum_value) list"
  | GraphQLInputObjectType string "(string \<times> input_field) list"
  | GraphQLList gql_type
  | GraphQLNonNull gql_type
and input_field =
    InputField (field_name: string) (field_type: gql_type) (field_description: "string option")
and enum_value =
    EnumValue (value_name: string) (value_description: "string option")

text \<open>Modelled from the spec: \<^verbatim>\<open>GraphQLBoolean\<close> is a constant of the graphql library, the
  marker of the boolean scalar (spec section 6).\<close>

definition GraphQLBoolean :: gql_type where
  "GraphQLBoolean = GraphQLScalarType ''Boolean''"

text \<open>Modelled from the spec: \<^verbatim>\<open>getNullableType\<close> is a function of the graphql library, the
  "unwrap-nullable" query of a TypeRef (spec section 3): it removes a non-null wrapper when the
  type has one, and gives no type for no type.\<close>

fun getNullableType :: "gql_type option \<Rightarrow> gql_type option" where
  "getNullableType None = None"
| "getNullableType (Some (GraphQLNonNull t)) = Some t"
| "getNullableType (Some t) = Some t"

text \<open>Modelled from the spec: \<^verbatim>\<open>getNamedType\<close> is a function of the graphql library, the
  "unwrap-to-named" query of a TypeRef (spec section 3 and glossary): it removes every list and
  non-null wrapper, and gives no type for no type.\<close>

fun getNamedType :: "gql_type option \<Rightarrow> gql_type option" where
  "getNamedType None = None"
| "getNamedType (Some (GraphQLList t)) = getNamedType (Some t)"
| "getNamedType (Some (GraphQLNonNull t)) = getNamedType (Some t)"
| "getNamedType (Some t) = Some t"

subsection \<open>Parse states, tokens, options, candidates\<close>

text \<open>A state of the variables-mode parser: \<^verbatim>\<open>kind\<close>, \<^verbatim>\<open>step\<close>, \<^verbatim>\<open>name\<close> (\<^verbatim>\<open>null\<close>
  until the parser has read one) and \<^verbatim>\<open>prevState\<close> (absent at the outermost state). A value
  of the datatype is a finite chain without cycles.\<close>

datatype parse_state =
  ParseState (kind: string) (step: int) (name: "string option") (prevState: "parse_state option")

text \<open>The editor's token: the source reads only \<^verbatim>\<open>token.state\<close>; the other properties are
  the record's extension.\<close>

record token =
  state :: parse_state

record options =
  variableToType :: "gql_type js_dict option"

text \<open>The \<^verbatim>\<open>info\<close> object of \<^verbatim>\<open>getTypeInfo\<close>: \<^verbatim>\<open>info.type\<close> and \<^verbatim>\<open>info.fields\<close>.\<close>

record type_info =
  info_type :: "gql_type option"
  info_fields :: "input_field js_dict option"

text \<open>An entry of a hint list: \<^verbatim>\<open>text\<close>, \<^verbatim>\<open>type\<close> and \<^verbatim>\<open>description\<close>; a property the
  object literal does not set is \<open>None\<close>.\<close>

record candidate =
  hint_text :: string
  hint_type :: "gql_type option"
  hint_description :: "string option"

subsection \<open>Type recovery\<close>

text \<open>Modelled from the spec: \<^verbatim>\<open>forEachState\<close> (\<^verbatim>\<open>../utils/forEachState\<close>) is not among the
  sources. Spec section 4.1: "given a ParseState chain (innermost state plus its ancestor chain)
  and a per-state visitor callback, invoke the callback once per state, traversing from outermost
  ancestor to innermost", "pure iteration with no filtering", ending at "a state with no
  predecessor". The callback's effect on the variables it closes over is the state \<open>s\<close> passed
  along.\<close>

fun forEachState :: "parse_state \<Rightarrow> (parse_state \<Rightarrow> 's \<Rightarrow> 's) \<Rightarrow> 's \<Rightarrow> 's" where
  "forEachState (ParseState k st n None) fn s = fn (ParseState k st n None) s"
| "forEachState (ParseState k st n (Some p)) fn s =
     fn (ParseState k st n (Some p)) (forEachState p fn s)"

text \<open>The callback \<^verbatim>\<open>getTypeInfo\<close> passes to \<^verbatim>\<open>forEachState\<close> (lines 147-165): its
  assignments to \<^verbatim>\<open>info.type\<close> and \<^verbatim>\<open>info.fields\<close> are record updates.\<close>

definition visitState :: "gql_type js_dict \<Rightarrow> parse_state \<Rightarrow> type_info \<Rightarrow> type_info" where
  "visitState variableToType' st info =
     (if kind st = ''Variable'' then
        info\<lparr>info_type := property variableToType' (propertyKey (name st))\<rparr>
      else if kind st = ''ListValue'' then
        (let nullableType = getNullableType (info_type info) in
         info\<lparr>info_type :=
           (case nullableType of Some (GraphQLList ofType) \<Rightarrow> Some ofType | _ \<Rightarrow> None)\<rparr>)
      else if kind st = ''ObjectValue'' then
        (let objectType = getNamedType (info_type info) in
         info\<lparr>info_fields :=
           (case objectType of Some (GraphQLInputObjectType n fs) \<Rightarrow> Some fs | _ \<Rightarrow> None)\<rparr>)
      else if kind st = ''ObjectField'' then
        (let objectField =
           (case info_fields info of
              Some fs \<Rightarrow> if truthy (name st) then property fs (propertyKey (name st)) else None
            | None \<Rightarrow> None) in
         info\<lparr>info_type := map_option field_type objectField\<rparr>)
      else info)"

definition getTypeInfo :: "gql_type js_dict \<Rightarrow> parse_state \<Rightarrow> type_info" where
  "getTypeInfo variableToType' tokenState =
     forEachState tokenState (visitState variableToType')
       \<lparr>info_type = None, info_fields = None\<rparr>"

subsection \<open>Candidate generation\<close>

text \<open>The state \<^verbatim>\<open>getVariablesHint\<close> dispatches on (lines 56-57): the prior state of an
  \<^verbatim>\<open>Invalid\<close> state, the token's state otherwise. \<open>None\<close> when the \<^verbatim>\<open>Invalid\<close> state
  records no prior state.\<close>

definition dispatchState :: "parse_state \<Rightarrow> parse_state option" where
  "dispatchState tokenState =
     (if kind tokenState = ''Invalid'' then prevState tokenState else Some tokenState)"

text \<open>\<^verbatim>\<open>Object.keys(obj).map(key => obj[key])\<close>, the values whose properties the caller reads
  next: \<open>None\<close> when one of them is \<^verbatim>\<open>undefined\<close>.\<close>

definition keyedValues :: "'v js_dict \<Rightarrow> 'v list option" where
  "keyedValues obj = those (map (property obj) (Object_keys obj))"

text \<open>
  \<^verbatim>\<open>getVariablesHint(cur, token, options)\<close> (lines 54-137). \<^verbatim>\<open>hintList\<close>
  (\<^verbatim>\<open>../utils/hintList\<close>) is not among the sources: it is the parameter \<open>hintList\<close>, and each
  \<^verbatim>\<open>return hintList(cur, token, list)\<close> is \<open>Inr (Some (hintList cur token list))\<close>. Running
  off the end of the function or \<^verbatim>\<open>return;\<close> is \<open>Inr None\<close>; reading \<^verbatim>\<open>kind\<close> of an
  absent state is \<open>Inl TypeError\<close>.
\<close>

definition getVariablesHint ::
  "('c \<Rightarrow> 't token_scheme \<Rightarrow> candidate list \<Rightarrow> 'r) \<Rightarrow> 'c \<Rightarrow> 't token_scheme \<Rightarrow> options
     \<Rightarrow> js_error + 'r option" where
  "getVariablesHint hintList cur tok opts =
     (case dispatchState (state tok) of
        None \<Rightarrow> Inl TypeError
      | Some st \<Rightarrow>
          if kind st = ''Document'' \<and> step st = 0 then
            Inr (Some (hintList cur tok
              [\<lparr>hint_text = ''{'', hint_type = None, hint_description = None\<rparr>]))
          else
            (case variableToType opts of
               None \<Rightarrow> Inr None
             | Some vt \<Rightarrow>
                 let typeInfo = getTypeInfo vt (state tok) in
                 if kind st = ''Document'' \<or> (kind st = ''Variable'' \<and> step st = 0) then
                   Inr (Some (hintList cur tok
                     (map (\<lambda>n. \<lparr>hint_text = dquote @ n @ dquote @ '': '',
                                 hint_type = property vt n, hint_description = None\<rparr>)
                        (Object_keys vt))))
                 else if (kind st = ''ObjectValue'' \<or> (kind st = ''ObjectField'' \<and> step st = 0))
                         \<and> info_fields typeInfo \<noteq> None then
                   (case keyedValues (the (info_fields typeInfo)) of
                      None \<Rightarrow> Inl TypeError
                    | Some inputFields \<Rightarrow>
                        Inr (Some (hintList cur tok
                          (map (\<lambda>field. \<lparr>hint_text = dquote @ field_name field @ dquote @ '': '',
                                         hint_type = Some (field_type field),
                                         hint_description = field_description field\<rparr>)
                             inputFields))))
                 else if kind st = ''StringValue'' \<or> kind st = ''NumberValue''
                         \<or> kind st = ''BooleanValue'' \<or> kind st = ''NullValue''
                         \<or> (kind st = ''ListValue'' \<and> step st = 1)
                         \<or> (kind st = ''ObjectField'' \<and> step st = 2)
                         \<or> (kind st = ''Variable'' \<and> step st = 2) then
                   (let namedInputType = getNamedType (info_type typeInfo) in
                    case namedInputType of
                      Some (GraphQLInputObjectType n fs) \<Rightarrow>
                        Inr (Some (hintList cur tok
                          [\<lparr>hint_text = ''{'', hint_type = None, hint_description = None\<rparr>]))
                    | Some (GraphQLEnumType n valueMap) \<Rightarrow>
                        (case keyedValues valueMap of
                           None \<Rightarrow> Inl TypeError
                         | Some values \<Rightarrow>
                             Inr (Some (hintList cur tok
                               (map (\<lambda>v. \<lparr>hint_text = dquote @ value_name v @ dquote,
                                           hint_type = namedInputType,
                                           hint_description = value_description v\<rparr>)
                                  values))))
                    | _ \<Rightarrow>
                        if namedInputType = Some GraphQLBoolean then
                          Inr (Some (hintList cur tok
                            [\<lparr>hint_text = ''true'', hint_type = Some GraphQLBoolean,
                              hint_description = Some ''Not false.''\<rparr>,
                             \<lparr>hint_text = ''false'', hint_type = Some GraphQLBoolean,
                              hint_description = Some ''Not true.''\<rparr>]))
                        else Inr None)
                 else Inr None))"

subsection \<open>The resolver over a store\<close>

text \<open>
  To state what resolution writes, the objects the source shares by reference are put in a
  store: the \<^verbatim>\<open>variableToType\<close> object, the nodes of the parse-state chain, and the
  \<^verbatim>\<open>info\<close> object \<^verbatim>\<open>getTypeInfo\<close> creates. A reference is an index of the store, and
  \<^verbatim>\<open>{type: null, fields: null}\<close> allocates at the first unused index. Type objects, strings
  and the candidate lists are values: the source assigns to none of them. In the store a chain
  may have a cycle.
\<close>

type_synonym ref = nat

datatype js_obj =
    StateObj string int "string option" "ref option"
  | InfoObj "gql_type option" "input_field js_dict option"
  | DictObj "gql_type js_dict"

type_synonym store = "js_obj list"

text \<open>Property reads \<^verbatim>\<open>obj.kind\<close>, \<^verbatim>\<open>obj.step\<close>, \<^verbatim>\<open>obj.name\<close>, \<^verbatim>\<open>obj.prevState\<close>,
  \<^verbatim>\<open>obj.type\<close>, \<^verbatim>\<open>obj.fields\<close> through a reference: \<open>None\<close> where the object has no such
  property (or the property is \<^verbatim>\<open>null\<close>).\<close>

definition kindAt :: "store \<Rightarrow> ref \<Rightarrow> string option" where
  "kindAt h r = (if r < length h then
                   (case h ! r of StateObj k st n p \<Rightarrow> Some k | _ \<Rightarrow> None) else None)"

definition stepAt :: "store \<Rightarrow> ref \<Rightarrow> int option" where
  "stepAt h r = (if r < length h then
                   (case h ! r of StateObj k st n p \<Rightarrow> Some st | _ \<Rightarrow> None) else None)"

definition nameAt :: "store \<Rightarrow> ref \<Rightarrow> string option" where
  "nameAt h r = (if r < length h then
                   (case h ! r of StateObj k st n p \<Rightarrow> n | _ \<Rightarrow> None) else None)"

definition prevStateAt :: "store \<Rightarrow> ref \<Rightarrow> ref option" where
  "prevStateAt h r = (if r < length h then
                   (case h ! r of StateObj k st n p \<Rightarrow> p | _ \<Rightarrow> None) else None)"

definition typeAt :: "store \<Rightarrow> ref \<Rightarrow> gql_type option" where
  "typeAt h r = (if r < length h then
                   (case h ! r of InfoObj t f \<Rightarrow> t | _ \<Rightarrow> None) else None)"

definition fieldsAt :: "store \<Rightarrow> ref \<Rightarrow> input_field js_dict option" where
  "fieldsAt h r = (if r < length h then
                   (case h ! r of InfoObj t f \<Rightarrow> f | _ \<Rightarrow> None) else None)"

text \<open>The dictionary a reference points to.\<close>

definition dictAt :: "store \<Rightarrow> ref \<Rightarrow> gql_type js_dict option" where
  "dictAt h r = (if r < length h then
                   (case h ! r of DictObj d \<Rightarrow> Some d | _ \<Rightarrow> None) else None)"

text \<open>The assignments \<^verbatim>\<open>info.type = t\<close> and \<^verbatim>\<open>info.fields = f\<close>: they overwrite the object
  the reference points to, whichever object that is.\<close>

definition setType :: "ref \<Rightarrow> gql_type option \<Rightarrow> store \<Rightarrow> store" where
  "setType r t h = h[r := InfoObj t (fieldsAt h r)]"

definition setFields :: "ref \<Rightarrow> input_field js_dict option \<Rightarrow> store \<Rightarrow> store" where
  "setFields r f h = h[r := InfoObj (typeAt h r) f]"

text \<open>Modelled from the spec: \<^verbatim>\<open>forEachState\<close> (\<^verbatim>\<open>../utils/forEachState\<close>) is not among the
  sources. Spec sections 4.1 and 9: it is "pure iteration", it unwinds the chain through
  \<^verbatim>\<open>prevState\<close> until "a state with no predecessor" ("collect then reverse") and invokes the
  callback once per state from the outermost ancestor to the innermost; on a cycle "traversal
  would not terminate", which is the value \<open>None\<close> here.\<close>

partial_function (option) collectStates :: "store \<Rightarrow> ref \<Rightarrow> ref list option" where
  "collectStates h r =
     (case prevStateAt h r of
        None \<Rightarrow> Some [r]
      | Some p \<Rightarrow> Option.bind (collectStates h p) (\<lambda>rs. Some (rs @ [r])))"

definition forEachState_store ::
  "ref \<Rightarrow> (ref \<Rightarrow> store \<Rightarrow> store) \<Rightarrow> store \<Rightarrow> store option" where
  "forEachState_store stack fn h = map_option (\<lambda>rs. fold fn rs h) (collectStates h stack)"

text \<open>The callback of \<^verbatim>\<open>getTypeInfo\<close> (lines 147-165) over the store: it closes over the
  references \<^verbatim>\<open>variableToType\<close> and \<^verbatim>\<open>info\<close>, reads the state it is given, and assigns to
  \<^verbatim>\<open>info.type\<close> and \<^verbatim>\<open>info.fields\<close>.\<close>

definition visitState_store :: "ref \<Rightarrow> ref \<Rightarrow> ref \<Rightarrow> store \<Rightarrow> store" where
  "visitState_store variableToType' info st h =
     (if kindAt h st = Some ''Variable'' then
        setType info
          (case dictAt h variableToType' of
             Some d \<Rightarrow> property d (propertyKey (nameAt h st)) | None \<Rightarrow> None) h
      else if kindAt h st = Some ''ListValue'' then
        (let nullableType = getNullableType (typeAt h info) in
         setType info
           (case nullableType of Some (GraphQLList ofType) \<Rightarrow> Some ofType | _ \<Rightarrow> None) h)
      else if kindAt h st = Some ''ObjectValue'' then
        (let objectType = getNamedType (typeAt h info) in
         setFields info
           (case objectType of Some (GraphQLInputObjectType n fs) \<Rightarrow> Some fs | _ \<Rightarrow> None) h)
      else if kindAt h st = Some ''ObjectField'' then
        (let objectField =
           (case fieldsAt h info of
              Some fs \<Rightarrow> if truthy (nameAt h st) then property fs (propertyKey (nameAt h st))
                         else None
            | None \<Rightarrow> None) in
         setType info (map_option field_type objectField) h)
      else h)"

text \<open>\<^verbatim>\<open>getTypeInfo\<close> (lines 141-168) over the store: it allocates \<^verbatim>\<open>info\<close>, runs the
  iteration and returns the reference with the store it leaves.\<close>

definition getTypeInfo_store :: "ref \<Rightarrow> ref \<Rightarrow> store \<Rightarrow> (ref \<times> store) option" where
  "getTypeInfo_store variableToType' tokenState h =
     (let info = length h; h1 = h @ [InfoObj None None] in
      map_option (\<lambda>h'. (info, h'))
        (forEachState_store tokenState (visitState_store variableToType' info) h1))"

text \<open>A reference represents a parse state of the first model when the chain behind it is
  made of state objects and ends: the chain is then finite and has no cycle.\<close>

inductive reprs :: "store \<Rightarrow> ref \<Rightarrow> parse_state \<Rightarrow> bool" where
  outermost: "r < length h \<Longrightarrow> h ! r = StateObj k st n None \<Longrightarrow> reprs h r (ParseState k st n None)"
| inner: "r < length h \<Longrightarrow> h ! r = StateObj k st n (Some p) \<Longrightarrow> reprs h p s \<Longrightarrow>
          reprs h r (ParseState k st n (Some s))"

text \<open>The object holding a type info.\<close>

definition infoObj :: "type_info \<Rightarrow> js_obj" where
  "infoObj i = InfoObj (info_type i) (info_fields i)"


text \<open>The token and the options with their references: \<^verbatim>\<open>token.state\<close> and
  \<^verbatim>\<open>options.variableToType\<close>.\<close>

record token_ref =
  stateRef :: ref

record options_ref =
  variableToTypeRef :: "ref option"

text \<open>\<^verbatim>\<open>getVariablesHint\<close> (lines 54-137) over the store, returning the result with the store
  it leaves; \<open>None\<close> when the iteration of \<^verbatim>\<open>getTypeInfo\<close> does not end. \<^verbatim>\<open>kind\<close> and
  \<^verbatim>\<open>step\<close> are read before \<^verbatim>\<open>getTypeInfo\<close> runs (lines 59-60), the mapping and the info
  object after it. \<open>hintList\<close> is a parameter as before.\<close>

definition getVariablesHint_store ::
  "('c \<Rightarrow> 't token_ref_scheme \<Rightarrow> candidate list \<Rightarrow> 'r) \<Rightarrow> 'c \<Rightarrow> 't token_ref_scheme \<Rightarrow> options_ref
     \<Rightarrow> store \<Rightarrow> ((js_error + 'r option) \<times> store) option" where
  "getVariablesHint_store hintList cur tok opts h =
     (case (if kindAt h (stateRef tok) = Some ''Invalid'' then prevStateAt h (stateRef tok)
            else Some (stateRef tok)) of
        None \<Rightarrow> Some (Inl TypeError, h)
      | Some st \<Rightarrow>
          let kind' = kindAt h st; step' = stepAt h st in
          if kind' = Some ''Document'' \<and> step' = Some 0 then
            Some (Inr (Some (hintList cur tok
              [\<lparr>hint_text = ''{'', hint_type = None, hint_description = None\<rparr>])), h)
          else
            (case variableToTypeRef opts of
               None \<Rightarrow> Some (Inr None, h)
             | Some vr \<Rightarrow>
                 (case getTypeInfo_store vr (stateRef tok) h of
                    None \<Rightarrow> None
                  | Some (typeInfo, h') \<Rightarrow>
                      let vt = (case dictAt h' vr of Some d \<Rightarrow> d | None \<Rightarrow> []) in
                      Some
                       (if kind' = Some ''Document'' \<or> (kind' = Some ''Variable'' \<and> step' = Some 0) then
                          Inr (Some (hintList cur tok
                            (map (\<lambda>n. \<lparr>hint_text = dquote @ n @ dquote @ '': '',
                                        hint_type = property vt n, hint_description = None\<rparr>)
                               (Object_keys vt))))
                        else if (kind' = Some ''ObjectValue''
                                 \<or> (kind' = Some ''ObjectField'' \<and> step' = Some 0))
                                \<and> fieldsAt h' typeInfo \<noteq> None then
                          (case keyedValues (the (fieldsAt h' typeInfo)) of
                             None \<Rightarrow> Inl TypeError
                           | Some inputFields \<Rightarrow>
                               Inr (Some (hintList cur tok
                                 (map (\<lambda>field.
                                         \<lparr>hint_text = dquote @ field_name field @ dquote @ '': '',
                                          hint_type = Some (field_type field),
                                          hint_description = field_description field\<rparr>)
                                    inputFields))))
                        else if kind' = Some ''StringValue'' \<or> kind' = Some ''NumberValue''
                                \<or> kind' = Some ''BooleanValue'' \<or> kind' = Some ''NullValue''
                                \<or> (kind' = Some ''ListValue'' \<and> step' = Some 1)
                                \<or> (kind' = Some ''ObjectField'' \<and> step' = Some 2)
                                \<or> (kind' = Some ''Variable'' \<and> step' = Some 2) then
                          (let namedInputType = getNamedType (typeAt h' typeInfo) in
                           case namedInputType of
                             Some (GraphQLInputObjectType n fs) \<Rightarrow>
                               Inr (Some (hintList cur tok
                                 [\<lparr>hint_text = ''{'', hint_type = None, hint_description = None\<rparr>]))
                           | Some (GraphQLEnumType n valueMap) \<Rightarrow>
                               (case keyedValues valueMap of
                                  None \<Rightarrow> Inl TypeError
                                | Some values \<Rightarrow>
                                    Inr (Some (hintList cur tok
                                      (map (\<lambda>v. \<lparr>hint_text = dquote @ value_name v @ dquote,
                                                  hint_type = namedInputType,
                                                  hint_description = value_description v\<rparr>)
                                         values))))
                           | _ \<Rightarrow>
                               if namedInputType = Some GraphQLBoolean then
                                 Inr (Some (hintList cur tok
                                   [\<lparr>hint_text = ''true'', hint_type = Some GraphQLBoolean,
                                     hint_description = Some ''Not false.''\<rparr>,
                                    \<lparr>hint_text = ''false'', hint_type = Some GraphQLBoolean,
                                     hint_description = Some ''Not true.''\<rparr>]))
                               else Inr None)
                        else Inr None, h'))))"


subsection \<open>Notions used to state the properties\<close>

text \<open>The chain of a state as a list: the outermost ancestor first, the state itself last.\<close>

fun ancestors :: "parse_state \<Rightarrow> parse_state list" where
  "ancestors (ParseState k st n None) = [ParseState k st n None]"
| "ancestors (ParseState k st n (Some p)) = ancestors p @ [ParseState k st n (Some p)]"

text \<open>An instance of the parameter \<open>hintList\<close> for evaluating \<open>getVariablesHint\<close> on concrete
  requests: it hands back the candidates it is given.\<close>

definition candidatesOnly :: "'c \<Rightarrow> 't \<Rightarrow> candidate list \<Rightarrow> candidate list" where
  "candidatesOnly cur tok list = list"

text \<open>The schema of the examples: an input object with the fields \<^verbatim>\<open>a: Int\<close> and
  \<^verbatim>\<open>b: String\<close>, an enum with the values \<^verbatim>\<open>RED\<close>, \<^verbatim>\<open>GREEN\<close>, \<^verbatim>\<open>BLUE\<close>, and three
  variables.\<close>

definition exampleObject :: gql_type where
  "exampleObject = GraphQLInputObjectType ''Point''
     [(''a'', InputField ''a'' (GraphQLScalarType ''Int'') None),
      (''b'', InputField ''b'' (GraphQLScalarType ''String'') (Some ''second''))]"

definition exampleEnum :: gql_type where
  "exampleEnum = GraphQLEnumType ''Color''
     [(''RED'', EnumValue ''RED'' None),
      (''GREEN'', EnumValue ''GREEN'' (Some ''go'')),
      (''BLUE'', EnumValue ''BLUE'' None)]"

definition exampleVariables :: "gql_type js_dict" where
  "exampleVariables =
     [(''x'', exampleObject),
      (''colors'', GraphQLNonNull (GraphQLList exampleEnum)),
      (''flag'', GraphQLNonNull GraphQLBoolean)]"

text \<open>Parse states of the examples: the document before and after its opening brace, and a
  variable entry inside it.\<close>

definition documentStart :: parse_state where
  "documentStart = ParseState ''Document'' 0 None None"

definition documentOpen :: parse_state where
  "documentOpen = ParseState ''Document'' 1 None None"

definition variableEntry :: "string option \<Rightarrow> int \<Rightarrow> parse_state" where
  "variableEntry x i = ParseState ''Variable'' i x (Some documentOpen)"

text \<open>A store for the examples: the mapping at reference 0 and the chain \<^verbatim>\<open>Document\<close>,
  \<^verbatim>\<open>Variable\<close> (name \<open>x\<close>), \<^verbatim>\<open>ObjectValue\<close> at references 1 to 3.\<close>

definition exampleStore :: store where
  "exampleStore =
     [DictObj exampleVariables,
      StateObj ''Document'' 1 None None,
      StateObj ''Variable'' 2 (Some ''x'') (Some 1),
      StateObj ''ObjectValue'' 1 None (Some 2)]"


section \<open>Properties\<close>

subsection \<open>Auxiliary facts\<close>

lemma dispatchState_not_Invalid: "kind s \<noteq> ''Invalid'' \<Longrightarrow> dispatchState s = Some s"
  by (simp add: dispatchState_def)

lemma those_eq_Some_map: "those xs = Some ys \<longleftrightarrow> xs = map Some ys"
  by (induction xs arbitrary: ys) (auto split: option.splits)

lemma those_defined: "None \<notin> set xs \<Longrightarrow> those xs \<noteq> None"
proof (induction xs)
  case Nil
  then show ?case by simp
next
  case (Cons a xs)
  then obtain v where "a = Some v" by (cases a) auto
  with Cons show ?case by (auto split: option.splits)
qed

lemma property_key_defined: "k \<in> set (Object_keys obj) \<Longrightarrow> property obj k \<noteq> None"
  by (simp add: Object_keys_def property_def map_of_eq_None_iff)

text \<open>Every key \<^verbatim>\<open>Object.keys\<close> lists is a property of the object, so reading the values
  key by key never meets \<^verbatim>\<open>undefined\<close>.\<close>

lemma keyedValues_defined: "keyedValues obj \<noteq> None"
  unfolding keyedValues_def
proof (rule those_defined)
  show "None \<notin> set (map (property obj) (Object_keys obj))"
  proof
    assume "None \<in> set (map (property obj) (Object_keys obj))"
    then obtain k where "k \<in> set (Object_keys obj)" and "property obj k = None"
      by (auto simp: image_iff)
    then show False using property_key_defined by blast
  qed
qed

lemma keyedValues_case_Inr:
  "(case keyedValues obj of None \<Rightarrow> Inl e | Some vs \<Rightarrow> Inr (g vs))
   = Inr (g (the (keyedValues obj)))"
  using keyedValues_defined [of obj] by (auto split: option.splits)

lemma keyedValues_js_object: "js_object obj \<Longrightarrow> keyedValues obj = Some (map snd obj)"
  unfolding keyedValues_def those_eq_Some_map js_object_def Object_keys_def property_def
  by auto

lemma variable_candidates_per_entry:
  "js_object vt \<Longrightarrow>
   map (\<lambda>n. \<lparr>hint_text = dquote @ n @ dquote @ '': '', hint_type = property vt n,
              hint_description = None\<rparr>) (Object_keys vt)
   = map (\<lambda>(n, t). \<lparr>hint_text = dquote @ n @ dquote @ '': '', hint_type = Some t,
              hint_description = None\<rparr>) vt"
  unfolding js_object_def Object_keys_def property_def
  by auto

lemma forEachState_foldl:
  "forEachState s fn init = foldl (\<lambda>acc st. fn st acc) init (ancestors s)"
  by (induction s fn init rule: forEachState.induct) simp_all

lemma getTypeInfo_foldl:
  "getTypeInfo vt s =
     foldl (\<lambda>info st. visitState vt st info) \<lparr>info_type = None, info_fields = None\<rparr> (ancestors s)"
  by (simp add: getTypeInfo_def forEachState_foldl)

lemma getTypeInfo_inner:
  "getTypeInfo vt (ParseState k st n (Some p)) =
     visitState vt (ParseState k st n (Some p)) (getTypeInfo vt p)"
  by (simp add: getTypeInfo_def)

lemma getTypeInfo_Invalid:
  "kind s = ''Invalid'' \<Longrightarrow> prevState s = Some p \<Longrightarrow> getTypeInfo vt s = getTypeInfo vt p"
  by (cases s) (simp add: getTypeInfo_def visitState_def)

lemma visitState_Variable:
  "kind st = ''Variable'' \<Longrightarrow>
   visitState vt st info = info\<lparr>info_type := property vt (propertyKey (name st))\<rparr>"
  by (simp add: visitState_def)

lemma visitState_ListValue:
  "kind st = ''ListValue'' \<Longrightarrow>
   visitState vt st info =
     info\<lparr>info_type := (case getNullableType (info_type info) of
                            Some (GraphQLList t) \<Rightarrow> Some t | _ \<Rightarrow> None)\<rparr>"
  by (simp add: visitState_def)

lemma visitState_ObjectValue:
  "kind st = ''ObjectValue'' \<Longrightarrow>
   visitState vt st info =
     info\<lparr>info_fields := (case getNamedType (info_type info) of
                              Some (GraphQLInputObjectType n fs) \<Rightarrow> Some fs | _ \<Rightarrow> None)\<rparr>"
  by (simp add: visitState_def)

lemma visitState_ObjectField:
  "kind st = ''ObjectField'' \<Longrightarrow>
   visitState vt st info =
     info\<lparr>info_type := map_option field_type
        (case info_fields info of
           Some fs \<Rightarrow> if truthy (name st) then property fs (propertyKey (name st)) else None
         | None \<Rightarrow> None)\<rparr>"
  by (simp add: visitState_def)

lemma getTypeInfo_field_chain:
  assumes "property vt x = Some t" and "getNamedType (Some t) = Some (GraphQLInputObjectType nm fs)"
    and "y \<noteq> []"
  shows "info_type (getTypeInfo vt
           (ParseState ''ObjectField'' s3 (Some y)
             (Some (ParseState ''ObjectValue'' s2 n2
               (Some (ParseState ''Variable'' s1 (Some x) p))))))
         = map_option field_type (property fs y)"
proof -
  let ?v = "ParseState ''Variable'' s1 (Some x) p"
  let ?o = "ParseState ''ObjectValue'' s2 n2 (Some ?v)"
  have v: "info_type (getTypeInfo vt ?v) = Some t"
    using assms(1) by (cases p) (simp_all add: getTypeInfo_def visitState_Variable)
  have o: "getTypeInfo vt ?o = (getTypeInfo vt ?v)\<lparr>info_fields := Some fs\<rparr>"
    using assms(2) v by (simp add: getTypeInfo_inner visitState_ObjectValue)
  show ?thesis
    using assms(3) o by (simp add: getTypeInfo_inner visitState_ObjectField)
qed

lemma getVariablesHint_cong_token:
  assumes "dispatchState (state tok) = dispatchState (state tok')"
    and "\<And>vt. getTypeInfo vt (state tok) = getTypeInfo vt (state tok')"
    and "\<And>l. hintList cur tok l = hintList cur tok' l"
  shows "getVariablesHint hintList cur tok opts = getVariablesHint hintList cur tok' opts"
  unfolding getVariablesHint_def assms by (rule refl)

lemma getVariablesHint_returns:
  assumes "dispatchState (state tok) = Some st"
  shows "\<exists>r. getVariablesHint hintList cur tok opts = Inr r"
  using assms
  by (simp add: getVariablesHint_def Let_def keyedValues_case_Inr
        split: option.splits gql_type.splits)

text \<open>Facts about the store model.\<close>

lemma reprs_reads:
  assumes "reprs h r s"
  shows "r < length h" "kindAt h r = Some (kind s)" "stepAt h r = Some (step s)" "nameAt h r = name s"
  using assms by (induction rule: reprs.induct) (simp_all add: kindAt_def stepAt_def nameAt_def)

lemma reprs_prev:
  "reprs h r s \<Longrightarrow> prevState s = None \<Longrightarrow> prevStateAt h r = None"
  "reprs h r s \<Longrightarrow> prevState s = Some s' \<Longrightarrow> \<exists>p. prevStateAt h r = Some p \<and> reprs h p s'"
  by (induction rule: reprs.induct) (simp_all add: prevStateAt_def)

lemma reprs_append: "reprs h r s \<Longrightarrow> reprs (h @ ys) r s"
  by (induction rule: reprs.induct) (auto intro: reprs.intros simp: nth_append)

lemma collectStates_reprs:
  "reprs h r s \<Longrightarrow> \<exists>rs. collectStates h r = Some rs \<and> list_all2 (reprs h) rs (ancestors s)"
proof (induction rule: reprs.induct)
  case (outermost r h k st n)
  then have "reprs h r (ParseState k st n None)" by (rule reprs.outermost)
  with outermost show ?case
    by (subst collectStates.simps) (simp add: prevStateAt_def)
next
  case (inner r h k st n p s)
  then obtain rs where rs: "collectStates h p = Some rs" "list_all2 (reprs h) rs (ancestors s)"
    by blast
  have "reprs h r (ParseState k st n (Some s))"
    using inner.hyps by (rule reprs.inner)
  with inner.hyps(1,2) rs show ?case
    by (subst collectStates.simps) (simp add: prevStateAt_def list_all2_appendI)
qed

lemma reads_append:
  assumes "r < length h"
  shows "kindAt (h @ ys) r = kindAt h r" "stepAt (h @ ys) r = stepAt h r"
    "nameAt (h @ ys) r = nameAt h r" "prevStateAt (h @ ys) r = prevStateAt h r"
    "dictAt (h @ ys) r = dictAt h r"
  using assms by (simp_all add: kindAt_def stepAt_def nameAt_def prevStateAt_def dictAt_def nth_append)

lemma dictAt_bound: "dictAt h r = Some d \<Longrightarrow> r < length h"
  by (simp add: dictAt_def split: if_splits)

lemma info_fresh:
  "typeAt (h @ [infoObj i]) (length h) = info_type i"
  "fieldsAt (h @ [infoObj i]) (length h) = info_fields i"
  "setType (length h) t (h @ [infoObj i]) = h @ [infoObj (i\<lparr>info_type := t\<rparr>)]"
  "setFields (length h) f (h @ [infoObj i]) = h @ [infoObj (i\<lparr>info_fields := f\<rparr>)]"
  by (simp_all add: typeAt_def fieldsAt_def setType_def setFields_def infoObj_def)

lemma collectStates_append:
  "reprs h r s \<Longrightarrow> collectStates (h @ ys) r = collectStates h r"
proof (induction rule: reprs.induct)
  case (outermost r h k st n)
  then show ?case
    by (subst (1 2) collectStates.simps) (simp add: prevStateAt_def nth_append)
next
  case (inner r h k st n p s)
  then show ?case
    by (subst (1 2) collectStates.simps) (simp add: prevStateAt_def nth_append)
qed

lemma visitState_store_fresh:
  assumes "reprs h sr s" and "dictAt h vr = Some vt"
  shows "visitState_store vr (length h) sr (h @ [infoObj i]) = h @ [infoObj (visitState vt s i)]"
proof -
  have sr: "sr < length h" and vr: "vr < length h"
    using assms reprs_reads(1) dictAt_bound by blast+
  have k: "kindAt (h @ [infoObj i]) sr = Some (kind s)"
    and n: "nameAt (h @ [infoObj i]) sr = name s"
    using reprs_reads [OF assms(1)] by (simp_all add: reads_append [OF sr])
  have d: "dictAt (h @ [infoObj i]) vr = Some vt"
    using assms(2) by (simp add: reads_append [OF vr])
  show ?thesis
    unfolding visitState_store_def visitState_def k n d
    by (simp add: info_fresh Let_def)
qed

lemma fold_visitState_store:
  assumes "list_all2 (reprs h) rs ss" and "dictAt h vr = Some vt"
  shows "fold (visitState_store vr (length h)) rs (h @ [infoObj i])
       = h @ [infoObj (foldl (\<lambda>info st. visitState vt st info) i ss)]"
  using assms(1)
proof (induction arbitrary: i rule: list_all2_induct)
  case Nil
  then show ?case by simp
next
  case (Cons r rs s ss)
  then show ?case
    by (simp add: visitState_store_fresh [OF Cons.hyps(1) assms(2)])
qed

lemma getTypeInfo_store_refines:
  assumes "reprs h tokenState s" and "dictAt h vr = Some vt"
  shows "getTypeInfo_store vr tokenState h = Some (length h, h @ [infoObj (getTypeInfo vt s)])"
proof -
  obtain rs where rs: "collectStates h tokenState = Some rs"
    "list_all2 (reprs h) rs (ancestors s)"
    using collectStates_reprs [OF assms(1)] by blast
  have c: "collectStates (h @ [InfoObj None None]) tokenState = Some rs"
    using rs(1) collectStates_append [OF assms(1)] by simp
  have e: "InfoObj None None = infoObj \<lparr>info_type = None, info_fields = None\<rparr>"
    by (simp add: infoObj_def)
  show ?thesis
    unfolding getTypeInfo_store_def forEachState_store_def Let_def c
    by (simp add: e fold_visitState_store [OF rs(2) assms(2)] getTypeInfo_foldl)
qed

lemma dispatch_store:
  assumes "reprs h r s"
  shows "rel_option (reprs h)
           (if kindAt h r = Some ''Invalid'' then prevStateAt h r else Some r) (dispatchState s)"
proof (cases "kind s = ''Invalid''")
  case True
  show ?thesis
  proof (cases "prevState s")
    case None
    with True assms show ?thesis
      by (simp add: dispatchState_def reprs_reads reprs_prev)
  next
    case (Some s')
    with assms obtain p where "prevStateAt h r = Some p" "reprs h p s'"
      using reprs_prev(2) by blast
    with True Some assms show ?thesis
      by (simp add: dispatchState_def reprs_reads)
  qed
next
  case False
  with assms show ?thesis
    by (simp add: dispatchState_def reprs_reads)
qed

lemma getVariablesHint_store_refines:
  assumes r: "reprs h (stateRef tok) s"
    and o: "rel_option (\<lambda>vr vt. dictAt h vr = Some vt) (variableToTypeRef opts) (variableToType opts')"
  shows "\<exists>h'. getVariablesHint_store hintList cur tok opts h
              = Some (getVariablesHint (\<lambda>c t. hintList c tok) cur \<lparr>state = s\<rparr> opts', h')
            \<and> (h' = h \<or> (\<exists>vr vt. variableToTypeRef opts = Some vr \<and> dictAt h vr = Some vt
                              \<and> h' = h @ [infoObj (getTypeInfo vt s)]))"
proof (cases "dispatchState s")
  case None
  with dispatch_store [OF r] show ?thesis
    by (simp add: getVariablesHint_store_def getVariablesHint_def)
next
  case (Some d)
  with dispatch_store [OF r] obtain dr where
    dr: "(if kindAt h (stateRef tok) = Some ''Invalid'' then prevStateAt h (stateRef tok)
          else Some (stateRef tok)) = Some dr" and d: "reprs h dr d"
    by (auto simp add: option_rel_Some2)
  note rd = reprs_reads(2,3) [OF d]
  show ?thesis
  proof (cases "variableToType opts'")
    case None
    with o have "variableToTypeRef opts = None" by simp
    with None Some show ?thesis
      unfolding getVariablesHint_store_def getVariablesHint_def dr
      by (simp add: rd Let_def)
  next
    case (Some vt)
    with o obtain vr where vr: "variableToTypeRef opts = Some vr" "dictAt h vr = Some vt"
      by (auto simp add: option_rel_Some2)
    have ti: "getTypeInfo_store vr (stateRef tok) h
              = Some (length h, h @ [infoObj (getTypeInfo vt s)])"
      using r vr(2) by (rule getTypeInfo_store_refines)
    have dv: "dictAt (h @ [infoObj (getTypeInfo vt s)]) vr = Some vt"
      using vr(2) by (simp add: reads_append dictAt_bound)
    show ?thesis
    proof (cases "kind d = ''Document'' \<and> step d = 0")
      case True
      with \<open>dispatchState s = Some d\<close> show ?thesis
        unfolding getVariablesHint_store_def getVariablesHint_def dr
        by (simp add: rd Let_def)
    next
      case False
      have "getVariablesHint_store hintList cur tok opts h
              = Some (getVariablesHint (\<lambda>c t. hintList c tok) cur \<lparr>state = s\<rparr> opts',
                      h @ [infoObj (getTypeInfo vt s)])"
        using False \<open>dispatchState s = Some d\<close> Some
        unfolding getVariablesHint_store_def getVariablesHint_def dr
        by (simp add: rd vr ti dv info_fresh Let_def)
      with vr show ?thesis by blast
    qed
  qed
qed

lemma example_pure_result:
  "getVariablesHint (\<lambda>c t. candidatesOnly c (tok :: token_ref)) ()
      \<lparr>state = ParseState ''ObjectValue'' 1 None (Some (variableEntry (Some ''x'') 2))\<rparr>
      \<lparr>variableToType = Some exampleVariables\<rparr>
   = Inr (Some
       [\<lparr>hint_text = dquote @ ''a'' @ dquote @ '': '',
          hint_type = Some (GraphQLScalarType ''Int''), hint_description = None\<rparr>,
        \<lparr>hint_text = dquote @ ''b'' @ dquote @ '': '',
          hint_type = Some (GraphQLScalarType ''String''),
          hint_description = Some ''second''\<rparr>])"
  by (simp add: getVariablesHint_def dispatchState_def getTypeInfo_def visitState_def
      variableEntry_def documentOpen_def exampleVariables_def exampleObject_def property_def
      keyedValues_def Object_keys_def candidatesOnly_def)

lemma example_pure_info:
  "getTypeInfo exampleVariables
     (ParseState ''ObjectValue'' 1 None (Some (variableEntry (Some ''x'') 2)))
   = \<lparr>info_type = Some exampleObject,
      info_fields = Some [(''a'', InputField ''a'' (GraphQLScalarType ''Int'') None),
                          (''b'', InputField ''b'' (GraphQLScalarType ''String'') (Some ''second''))]\<rparr>"
  by (simp add: getTypeInfo_def visitState_def variableEntry_def documentOpen_def
      exampleVariables_def exampleObject_def property_def)


subsection \<open>The claims\<close>

text \<open>
  \<^bold>\<open>C2.\<close> When the state dispatched on (after the substitution for an \<^verbatim>\<open>Invalid\<close> state) has
  kind \<^verbatim>\<open>Document\<close> and step 0, the list handed to \<^verbatim>\<open>hintList\<close> is exactly the one candidate
  \<^verbatim>\<open>{\<close>, whatever the options hold: with or without a \<^verbatim>\<open>variableToType\<close> mapping.
\<close>

theorem document_step0_brace:
  assumes "dispatchState (state tok) = Some st" and "kind st = ''Document''" and "step st = 0"
  shows "getVariablesHint hintList cur tok opts =
           Inr (Some (hintList cur tok
             [\<lparr>hint_text = ''{'', hint_type = None, hint_description = None\<rparr>]))"
  using assms by (simp add: getVariablesHint_def)

theorem document_step0_brace_witness:
  "dispatchState (state \<lparr>state = documentStart\<rparr>) = Some documentStart
   \<and> kind documentStart = ''Document'' \<and> step documentStart = 0
   \<and> getVariablesHint candidatesOnly () \<lparr>state = documentStart\<rparr> \<lparr>variableToType = None\<rparr>
       = Inr (Some [\<lparr>hint_text = ''{'', hint_type = None, hint_description = None\<rparr>])
   \<and> getVariablesHint candidatesOnly () \<lparr>state = documentStart\<rparr>
         \<lparr>variableToType = Some exampleVariables\<rparr>
       = Inr (Some [\<lparr>hint_text = ''{'', hint_type = None, hint_description = None\<rparr>])"
proof -
  have d: "dispatchState (state \<lparr>state = documentStart\<rparr>) = Some documentStart"
    by (simp add: dispatchState_def documentStart_def)
  have k: "kind documentStart = ''Document''" and s: "step documentStart = 0"
    by (simp_all add: documentStart_def)
  show ?thesis
    using d k s
      document_step0_brace [OF d k s, of candidatesOnly "()" "\<lparr>variableToType = None\<rparr>"]
      document_step0_brace [OF d k s, of candidatesOnly "()"
        "\<lparr>variableToType = Some exampleVariables\<rparr>"]
    by (simp add: candidatesOnly_def)
qed

text \<open>
  \<^bold>\<open>C3.\<close> With a \<^verbatim>\<open>variableToType\<close> mapping, when the state dispatched on has kind
  \<^verbatim>\<open>Document\<close> at a step other than 0, or kind \<^verbatim>\<open>Variable\<close> at step 0, the list handed to
  \<^verbatim>\<open>hintList\<close> has exactly one candidate per entry of the mapping, in the order of its keys:
  the text is the quoted variable name followed by a colon and a space, the type is the
  variable's declared type.
\<close>

theorem variable_name_hints:
  assumes "variableToType opts = Some vt" and "js_object vt"
    and "dispatchState (state tok) = Some st"
    and "(kind st = ''Document'' \<and> step st \<noteq> 0) \<or> (kind st = ''Variable'' \<and> step st = 0)"
  shows "getVariablesHint hintList cur tok opts =
           Inr (Some (hintList cur tok
             (map (\<lambda>(n, t). \<lparr>hint_text = dquote @ n @ dquote @ '': '', hint_type = Some t,
                               hint_description = None\<rparr>) vt)))"
  using assms variable_candidates_per_entry [of vt]
  by (auto simp add: getVariablesHint_def Let_def)

theorem variable_name_hints_witness:
  "js_object exampleVariables
   \<and> dispatchState (state \<lparr>state = variableEntry None 0\<rparr>) = Some (variableEntry None 0)
   \<and> kind (variableEntry None 0) = ''Variable'' \<and> step (variableEntry None 0) = 0
   \<and> getVariablesHint candidatesOnly () \<lparr>state = variableEntry None 0\<rparr>
         \<lparr>variableToType = Some exampleVariables\<rparr>
       = Inr (Some
           [\<lparr>hint_text = dquote @ ''x'' @ dquote @ '': '', hint_type = Some exampleObject,
              hint_description = None\<rparr>,
            \<lparr>hint_text = dquote @ ''colors'' @ dquote @ '': '',
              hint_type = Some (GraphQLNonNull (GraphQLList exampleEnum)),
              hint_description = None\<rparr>,
            \<lparr>hint_text = dquote @ ''flag'' @ dquote @ '': '',
              hint_type = Some (GraphQLNonNull GraphQLBoolean), hint_description = None\<rparr>])"
proof -
  have j: "js_object exampleVariables"
    by (simp add: js_object_def exampleVariables_def)
  have d: "dispatchState (state \<lparr>state = variableEntry None 0\<rparr>) = Some (variableEntry None 0)"
    by (simp add: dispatchState_def variableEntry_def)
  have k: "(kind (variableEntry None 0) = ''Document'' \<and> step (variableEntry None 0) \<noteq> 0)
         \<or> (kind (variableEntry None 0) = ''Variable'' \<and> step (variableEntry None 0) = 0)"
    by (simp add: variableEntry_def)
  have v: "variableToType \<lparr>variableToType = Some exampleVariables\<rparr> = Some exampleVariables"
    by simp
  show ?thesis
    using j d variable_name_hints [OF v j d k, of candidatesOnly "()"]
    by (simp add: candidatesOnly_def exampleVariables_def variableEntry_def)
qed

text \<open>
  \<^bold>\<open>C4.\<close> With a \<^verbatim>\<open>variableToType\<close> mapping, when the state dispatched on has kind
  \<^verbatim>\<open>ObjectValue\<close>, or kind \<^verbatim>\<open>ObjectField\<close> at step 0, and type recovery over the token's
  chain produced a field set, the list handed to \<^verbatim>\<open>hintList\<close> has exactly one candidate per
  field of that set, in the order the fields are declared: the text is the quoted field name
  followed by a colon and a space, with the field's declared type and description.
\<close>

theorem input_field_hints:
  assumes "variableToType opts = Some vt" and "dispatchState (state tok) = Some st"
    and "kind st = ''ObjectValue'' \<or> (kind st = ''ObjectField'' \<and> step st = 0)"
    and "info_fields (getTypeInfo vt (state tok)) = Some fs" and "js_object fs"
  shows "getVariablesHint hintList cur tok opts =
           Inr (Some (hintList cur tok
             (map (\<lambda>(k, field). \<lparr>hint_text = dquote @ field_name field @ dquote @ '': '',
                                   hint_type = Some (field_type field),
                                   hint_description = field_description field\<rparr>) fs)))"
  using assms keyedValues_js_object [of fs]
  by (auto simp add: getVariablesHint_def Let_def case_prod_unfold comp_def)

theorem input_field_hints_witness:
  "info_fields (getTypeInfo exampleVariables
       (ParseState ''ObjectValue'' 1 None (Some (variableEntry (Some ''x'') 2))))
     = Some [(''a'', InputField ''a'' (GraphQLScalarType ''Int'') None),
             (''b'', InputField ''b'' (GraphQLScalarType ''String'') (Some ''second''))]
   \<and> getVariablesHint candidatesOnly ()
         \<lparr>state = ParseState ''ObjectValue'' 1 None (Some (variableEntry (Some ''x'') 2))\<rparr>
         \<lparr>variableToType = Some exampleVariables\<rparr>
       = Inr (Some
           [\<lparr>hint_text = dquote @ ''a'' @ dquote @ '': '',
              hint_type = Some (GraphQLScalarType ''Int''), hint_description = None\<rparr>,
            \<lparr>hint_text = dquote @ ''b'' @ dquote @ '': '',
              hint_type = Some (GraphQLScalarType ''String''),
              hint_description = Some ''second''\<rparr>])"
proof -
  let ?s = "ParseState ''ObjectValue'' 1 None (Some (variableEntry (Some ''x'') 2))"
  let ?fs = "[(''a'', InputField ''a'' (GraphQLScalarType ''Int'') None),
              (''b'', InputField ''b'' (GraphQLScalarType ''String'') (Some ''second''))]"
  have v: "variableToType \<lparr>variableToType = Some exampleVariables\<rparr> = Some exampleVariables"
    by simp
  have d: "dispatchState (state \<lparr>state = ?s\<rparr>) = Some ?s"
    by (simp add: dispatchState_def)
  have k: "kind ?s = ''ObjectValue'' \<or> (kind ?s = ''ObjectField'' \<and> step ?s = 0)"
    by simp
  have f: "info_fields (getTypeInfo exampleVariables (state \<lparr>state = ?s\<rparr>)) = Some ?fs"
    by (simp add: getTypeInfo_def visitState_def variableEntry_def documentOpen_def
        exampleVariables_def exampleObject_def property_def)
  have j: "js_object ?fs"
    by (simp add: js_object_def)
  show ?thesis
    using f input_field_hints [OF v d k f j, of candidatesOnly "()"]
    by (simp add: candidatesOnly_def)
qed

text \<open>
  \<^bold>\<open>C7.\<close> Without a \<^verbatim>\<open>variableToType\<close> mapping in the options, resolution returns no result
  for every state dispatched on, except \<^verbatim>\<open>Document\<close> at step 0, where the open-brace hint is
  still produced.
\<close>

theorem no_variableToType:
  assumes "variableToType opts = None" and "dispatchState (state tok) = Some st"
  shows "getVariablesHint hintList cur tok opts =
           (if kind st = ''Document'' \<and> step st = 0
            then Inr (Some (hintList cur tok
                   [\<lparr>hint_text = ''{'', hint_type = None, hint_description = None\<rparr>]))
            else Inr None)"
  using assms by (simp add: getVariablesHint_def)

theorem no_variableToType_witness:
  "getVariablesHint candidatesOnly () \<lparr>state = variableEntry None 0\<rparr> \<lparr>variableToType = None\<rparr>
     = Inr None
   \<and> getVariablesHint candidatesOnly () \<lparr>state = documentOpen\<rparr> \<lparr>variableToType = None\<rparr>
     = Inr None
   \<and> getVariablesHint candidatesOnly () \<lparr>state = documentStart\<rparr> \<lparr>variableToType = None\<rparr>
     = Inr (Some [\<lparr>hint_text = ''{'', hint_type = None, hint_description = None\<rparr>])"
proof -
  have v: "variableToType \<lparr>variableToType = None\<rparr> = None"
    by simp
  have d: "dispatchState (state \<lparr>state = s\<rparr>) = Some s" if "kind s \<noteq> ''Invalid''" for s
    using that by (simp add: dispatchState_def)
  have d1: "dispatchState (state \<lparr>state = variableEntry None 0\<rparr>) = Some (variableEntry None 0)"
    by (rule d) (simp add: variableEntry_def)
  have d2: "dispatchState (state \<lparr>state = documentOpen\<rparr>) = Some documentOpen"
    by (rule d) (simp add: documentOpen_def)
  have d3: "dispatchState (state \<lparr>state = documentStart\<rparr>) = Some documentStart"
    by (rule d) (simp add: documentStart_def)
  show ?thesis
    using no_variableToType [OF v d1, of candidatesOnly "()"]
      no_variableToType [OF v d2, of candidatesOnly "()"]
      no_variableToType [OF v d3, of candidatesOnly "()"]
    by (simp add: candidatesOnly_def variableEntry_def documentOpen_def documentStart_def)
qed

text \<open>
  \<^bold>\<open>C10.\<close> The substitution for an \<^verbatim>\<open>Invalid\<close> state is made once: when the token's state and
  its prior state both have kind \<^verbatim>\<open>Invalid\<close>, the state dispatched on is that prior state,
  still \<^verbatim>\<open>Invalid\<close>; no branch matches it and resolution returns no result, whatever lies
  further out in the chain.
\<close>

theorem invalid_once:
  assumes "kind (state tok) = ''Invalid''" and "prevState (state tok) = Some p"
    and "kind p = ''Invalid''"
  shows "dispatchState (state tok) = Some p \<and> getVariablesHint hintList cur tok opts = Inr None"
  using assms by (simp add: getVariablesHint_def dispatchState_def Let_def split: option.splits)

theorem invalid_once_witness:
  "getVariablesHint candidatesOnly ()
     \<lparr>state = ParseState ''Invalid'' 0 None
        (Some (ParseState ''Invalid'' 0 None (Some documentStart)))\<rparr>
     \<lparr>variableToType = Some exampleVariables\<rparr> = Inr None
   \<and> getVariablesHint candidatesOnly ()
     \<lparr>state = ParseState ''Invalid'' 0 None
        (Some (ParseState ''Invalid'' 0 None (Some documentStart)))\<rparr>
     \<lparr>variableToType = None\<rparr> = Inr None"
proof -
  let ?p = "ParseState ''Invalid'' 0 None (Some documentStart)"
  let ?t = "\<lparr>state = ParseState ''Invalid'' 0 None (Some ?p)\<rparr>"
  have a: "kind (state ?t) = ''Invalid''" and b: "prevState (state ?t) = Some ?p"
    and c: "kind ?p = ''Invalid''"
    by simp_all
  show ?thesis
    using invalid_once [OF a b c, of candidatesOnly "()" "\<lparr>variableToType = Some exampleVariables\<rparr>"]
      invalid_once [OF a b c, of candidatesOnly "()" "\<lparr>variableToType = None\<rparr>"]
    by simp
qed

text \<open>
  \<^bold>\<open>C5.\<close> With a \<^verbatim>\<open>variableToType\<close> mapping, when the state dispatched on is a value position
  (kind \<^verbatim>\<open>StringValue\<close>, \<^verbatim>\<open>NumberValue\<close>, \<^verbatim>\<open>BooleanValue\<close> or \<^verbatim>\<open>NullValue\<close>, or
  \<^verbatim>\<open>ListValue\<close> at step 1, \<^verbatim>\<open>ObjectField\<close> at step 2, \<^verbatim>\<open>Variable\<close> at step 2), the list
  handed to \<^verbatim>\<open>hintList\<close> follows the named form of the recovered type: an input object gives
  the one candidate \<^verbatim>\<open>{\<close>; an enum gives one candidate per value in declaration order, the
  quoted value name with the enum type and the value's description; the boolean scalar gives
  \<^verbatim>\<open>true\<close> ("Not false.") and then \<^verbatim>\<open>false\<close> ("Not true.").
\<close>

theorem input_value_hints:
  assumes "variableToType opts = Some vt" and "dispatchState (state tok) = Some st"
    and "kind st = ''StringValue'' \<or> kind st = ''NumberValue'' \<or> kind st = ''BooleanValue''
         \<or> kind st = ''NullValue'' \<or> (kind st = ''ListValue'' \<and> step st = 1)
         \<or> (kind st = ''ObjectField'' \<and> step st = 2) \<or> (kind st = ''Variable'' \<and> step st = 2)"
  shows "(getNamedType (info_type (getTypeInfo vt (state tok))) = Some (GraphQLInputObjectType n fs)
            \<longrightarrow> getVariablesHint hintList cur tok opts =
                  Inr (Some (hintList cur tok
                    [\<lparr>hint_text = ''{'', hint_type = None, hint_description = None\<rparr>])))
       \<and> (getNamedType (info_type (getTypeInfo vt (state tok))) = Some (GraphQLEnumType n valueMap)
            \<and> js_object valueMap
            \<longrightarrow> getVariablesHint hintList cur tok opts =
                  Inr (Some (hintList cur tok
                    (map (\<lambda>(k, v). \<lparr>hint_text = dquote @ value_name v @ dquote,
                                      hint_type = Some (GraphQLEnumType n valueMap),
                                      hint_description = value_description v\<rparr>) valueMap))))
       \<and> (getNamedType (info_type (getTypeInfo vt (state tok))) = Some GraphQLBoolean
            \<longrightarrow> getVariablesHint hintList cur tok opts =
                  Inr (Some (hintList cur tok
                    [\<lparr>hint_text = ''true'', hint_type = Some GraphQLBoolean,
                      hint_description = Some ''Not false.''\<rparr>,
                     \<lparr>hint_text = ''false'', hint_type = Some GraphQLBoolean,
                      hint_description = Some ''Not true.''\<rparr>])))"
  using assms keyedValues_js_object [of valueMap]
  by (auto simp add: getVariablesHint_def Let_def GraphQLBoolean_def case_prod_unfold comp_def)

lemma example_types:
  "info_type (getTypeInfo exampleVariables (variableEntry (Some ''x'') 2)) = Some exampleObject"
  "info_type (getTypeInfo exampleVariables (variableEntry (Some ''flag'') 2))
     = Some (GraphQLNonNull GraphQLBoolean)"
  "info_type (getTypeInfo exampleVariables
      (ParseState ''ListValue'' 1 None (Some (variableEntry (Some ''colors'') 2))))
     = Some exampleEnum"
  by (simp_all add: getTypeInfo_def visitState_def variableEntry_def documentOpen_def
      exampleVariables_def property_def)

theorem input_value_hints_witness:
  "getVariablesHint candidatesOnly () \<lparr>state = variableEntry (Some ''x'') 2\<rparr>
       \<lparr>variableToType = Some exampleVariables\<rparr>
     = Inr (Some [\<lparr>hint_text = ''{'', hint_type = None, hint_description = None\<rparr>])
   \<and> getVariablesHint candidatesOnly ()
       \<lparr>state = ParseState ''ListValue'' 1 None (Some (variableEntry (Some ''colors'') 2))\<rparr>
       \<lparr>variableToType = Some exampleVariables\<rparr>
     = Inr (Some
         [\<lparr>hint_text = dquote @ ''RED'' @ dquote, hint_type = Some exampleEnum,
            hint_description = None\<rparr>,
          \<lparr>hint_text = dquote @ ''GREEN'' @ dquote, hint_type = Some exampleEnum,
            hint_description = Some ''go''\<rparr>,
          \<lparr>hint_text = dquote @ ''BLUE'' @ dquote, hint_type = Some exampleEnum,
            hint_description = None\<rparr>])
   \<and> getVariablesHint candidatesOnly () \<lparr>state = variableEntry (Some ''flag'') 2\<rparr>
       \<lparr>variableToType = Some exampleVariables\<rparr>
     = Inr (Some
         [\<lparr>hint_text = ''true'', hint_type = Some GraphQLBoolean,
            hint_description = Some ''Not false.''\<rparr>,
          \<lparr>hint_text = ''false'', hint_type = Some GraphQLBoolean,
            hint_description = Some ''Not true.''\<rparr>])"
proof -
  let ?vals = "[(''RED'', EnumValue ''RED'' None), (''GREEN'', EnumValue ''GREEN'' (Some ''go'')),
                (''BLUE'', EnumValue ''BLUE'' None)]"
  let ?fs = "[(''a'', InputField ''a'' (GraphQLScalarType ''Int'') None),
              (''b'', InputField ''b'' (GraphQLScalarType ''String'') (Some ''second''))]"
  let ?l = "ParseState ''ListValue'' 1 None (Some (variableEntry (Some ''colors'') 2))"
  have v: "variableToType \<lparr>variableToType = Some exampleVariables\<rparr> = Some exampleVariables"
    by simp
  have d: "dispatchState (state \<lparr>state = s\<rparr>) = Some s" if "kind s \<noteq> ''Invalid''"
    for s using that by (simp add: dispatchState_def)
  have dx: "dispatchState (state \<lparr>state = variableEntry (Some x) 2\<rparr>) = Some (variableEntry (Some x) 2)"
    for x by (rule d) (simp add: variableEntry_def)
  have dl: "dispatchState (state \<lparr>state = ?l\<rparr>) = Some ?l"
    by (rule d) simp
  have px: "kind s = ''StringValue'' \<or> kind s = ''NumberValue'' \<or> kind s = ''BooleanValue''
         \<or> kind s = ''NullValue'' \<or> (kind s = ''ListValue'' \<and> step s = 1)
         \<or> (kind s = ''ObjectField'' \<and> step s = 2) \<or> (kind s = ''Variable'' \<and> step s = 2)"
    if "s = variableEntry (Some x) 2" for s x
    using that by (simp add: variableEntry_def)
  have pl: "kind ?l = ''StringValue'' \<or> kind ?l = ''NumberValue'' \<or> kind ?l = ''BooleanValue''
         \<or> kind ?l = ''NullValue'' \<or> (kind ?l = ''ListValue'' \<and> step ?l = 1)
         \<or> (kind ?l = ''ObjectField'' \<and> step ?l = 2) \<or> (kind ?l = ''Variable'' \<and> step ?l = 2)"
    by simp
  have j: "js_object ?vals"
    by (simp add: js_object_def)
  have n1: "getNamedType (info_type (getTypeInfo exampleVariables
               (state \<lparr>state = variableEntry (Some ''x'') 2\<rparr>)))
            = Some (GraphQLInputObjectType ''Point'' ?fs)"
    by (simp add: example_types exampleObject_def)
  have n2: "getNamedType (info_type (getTypeInfo exampleVariables (state \<lparr>state = ?l\<rparr>)))
            = Some (GraphQLEnumType ''Color'' ?vals)"
    by (simp add: example_types exampleEnum_def)
  have n3: "getNamedType (info_type (getTypeInfo exampleVariables
               (state \<lparr>state = variableEntry (Some ''flag'') 2\<rparr>)))
            = Some GraphQLBoolean"
    by (simp add: example_types GraphQLBoolean_def)
  have e: "exampleEnum = GraphQLEnumType ''Color'' ?vals"
    by (simp add: exampleEnum_def)
  show ?thesis
    using n1 n2 n3 j
      input_value_hints [where hintList = candidatesOnly and cur = "()" and n = "''Point''"
        and fs = ?fs and valueMap = ?vals, OF v dx [of "''x''"] px [OF refl]]
      input_value_hints [where hintList = candidatesOnly and cur = "()" and n = "''Color''"
        and fs = ?fs and valueMap = ?vals, OF v dl pl]
      input_value_hints [where hintList = candidatesOnly and cur = "()" and n = "''Point''"
        and fs = ?fs and valueMap = ?vals, OF v dx [of "''flag''"] px [OF refl]]
    by (simp add: candidatesOnly_def e)
qed

text \<open>
  \<^bold>\<open>C1.\<close> Type recovery applies the callback once per state of the chain, from the outermost
  ancestor to the token's state, starting from no type and no fields. A \<^verbatim>\<open>Variable\<close> state
  sets the type to the mapping's entry for its name. A \<^verbatim>\<open>ListValue\<close> state removes the
  non-null wrapper of the type and, when a list type remains, sets the type to its element
  type, and to none otherwise. An \<^verbatim>\<open>ObjectValue\<close> state sets the fields to the field map of
  the type's named form when that is an input object, and to none otherwise. An
  \<^verbatim>\<open>ObjectField\<close> state with a non-empty name, when fields are set, sets the type to the
  declared type of the field of that name, and to none when there is no such field. For the
  chain \<^verbatim>\<open>Variable\<close> (name \<open>x\<close>), \<^verbatim>\<open>ObjectValue\<close>, \<^verbatim>\<open>ObjectField\<close> (name \<open>y\<close>), under any
  outer states, the recovered type is the declared type of the field \<open>y\<close> of the input object
  that the type of \<open>x\<close> names.
\<close>

theorem getTypeInfo_rules:
  "getTypeInfo vt s =
     foldl (\<lambda>info st. visitState vt st info) \<lparr>info_type = None, info_fields = None\<rparr> (ancestors s)
   \<and> (kind st = ''Variable'' \<longrightarrow>
        visitState vt st info = info\<lparr>info_type := property vt (propertyKey (name st))\<rparr>)
   \<and> (kind st = ''ListValue'' \<longrightarrow>
        visitState vt st info =
          info\<lparr>info_type := (case getNullableType (info_type info) of
                                 Some (GraphQLList t) \<Rightarrow> Some t | _ \<Rightarrow> None)\<rparr>)
   \<and> (kind st = ''ObjectValue'' \<longrightarrow>
        visitState vt st info =
          info\<lparr>info_fields := (case getNamedType (info_type info) of
                                   Some (GraphQLInputObjectType n fs) \<Rightarrow> Some fs | _ \<Rightarrow> None)\<rparr>)
   \<and> (kind st = ''ObjectField'' \<and> name st = Some y \<and> y \<noteq> [] \<and> info_fields info = Some fmap
        \<longrightarrow> visitState vt st info = info\<lparr>info_type := map_option field_type (property fmap y)\<rparr>)
   \<and> (property vt x = Some tx \<and> getNamedType (Some tx) = Some (GraphQLInputObjectType nm fx)
        \<and> fy \<noteq> [] \<and> property fx fy = Some f \<longrightarrow>
        info_type (getTypeInfo vt
          (ParseState ''ObjectField'' s3 (Some fy)
            (Some (ParseState ''ObjectValue'' s2 n2
              (Some (ParseState ''Variable'' s1 (Some x) outer))))))
        = Some (field_type f))"
proof (intro conjI impI)
  show "getTypeInfo vt s =
     foldl (\<lambda>info st. visitState vt st info) \<lparr>info_type = None, info_fields = None\<rparr> (ancestors s)"
    by (rule getTypeInfo_foldl)
next
  assume "kind st = ''Variable''"
  then show "visitState vt st info = info\<lparr>info_type := property vt (propertyKey (name st))\<rparr>"
    by (rule visitState_Variable)
next
  assume "kind st = ''ListValue''"
  then show "visitState vt st info =
          info\<lparr>info_type := (case getNullableType (info_type info) of
                                 Some (GraphQLList t) \<Rightarrow> Some t | _ \<Rightarrow> None)\<rparr>"
    by (rule visitState_ListValue)
next
  assume "kind st = ''ObjectValue''"
  then show "visitState vt st info =
          info\<lparr>info_fields := (case getNamedType (info_type info) of
                                   Some (GraphQLInputObjectType n fs) \<Rightarrow> Some fs | _ \<Rightarrow> None)\<rparr>"
    by (rule visitState_ObjectValue)
next
  assume "kind st = ''ObjectField'' \<and> name st = Some y \<and> y \<noteq> [] \<and> info_fields info = Some fmap"
  then show "visitState vt st info = info\<lparr>info_type := map_option field_type (property fmap y)\<rparr>"
    by (simp add: visitState_ObjectField)
next
  assume "property vt x = Some tx \<and> getNamedType (Some tx) = Some (GraphQLInputObjectType nm fx)
        \<and> fy \<noteq> [] \<and> property fx fy = Some f"
  then show "info_type (getTypeInfo vt
          (ParseState ''ObjectField'' s3 (Some fy)
            (Some (ParseState ''ObjectValue'' s2 n2
              (Some (ParseState ''Variable'' s1 (Some x) outer))))))
        = Some (field_type f)"
    using getTypeInfo_field_chain [of vt x tx nm fx fy s3 s2 n2 s1 outer] by simp
qed

theorem getTypeInfo_rules_witness:
  "getTypeInfo exampleVariables
     (ParseState ''ObjectField'' 2 (Some ''b'')
       (Some (ParseState ''ObjectValue'' 1 None (Some (variableEntry (Some ''x'') 2)))))
     = \<lparr>info_type = Some (GraphQLScalarType ''String''),
        info_fields = Some [(''a'', InputField ''a'' (GraphQLScalarType ''Int'') None),
                            (''b'', InputField ''b'' (GraphQLScalarType ''String'') (Some ''second''))]\<rparr>
   \<and> ancestors (ParseState ''ObjectValue'' 1 None (Some (variableEntry (Some ''x'') 2)))
     = [documentOpen, variableEntry (Some ''x'') 2,
        ParseState ''ObjectValue'' 1 None (Some (variableEntry (Some ''x'') 2))]
   \<and> visitState exampleVariables (variableEntry (Some ''flag'') 2)
        \<lparr>info_type = None, info_fields = None\<rparr>
     = \<lparr>info_type = Some (GraphQLNonNull GraphQLBoolean), info_fields = None\<rparr>
   \<and> visitState exampleVariables (ParseState ''ListValue'' 1 None None)
        \<lparr>info_type = Some (GraphQLNonNull (GraphQLList exampleEnum)), info_fields = None\<rparr>
     = \<lparr>info_type = Some exampleEnum, info_fields = None\<rparr>
   \<and> visitState exampleVariables (ParseState ''ListValue'' 1 None None)
        \<lparr>info_type = Some exampleEnum, info_fields = None\<rparr>
     = \<lparr>info_type = None, info_fields = None\<rparr>
   \<and> visitState exampleVariables (ParseState ''ObjectValue'' 1 None None)
        \<lparr>info_type = Some exampleEnum, info_fields = None\<rparr>
     = \<lparr>info_type = Some exampleEnum, info_fields = None\<rparr>
   \<and> visitState exampleVariables (ParseState ''ObjectField'' 0 (Some ''c'') None)
        \<lparr>info_type = Some exampleObject,
          info_fields = Some [(''a'', InputField ''a'' (GraphQLScalarType ''Int'') None)]\<rparr>
     = \<lparr>info_type = None,
        info_fields = Some [(''a'', InputField ''a'' (GraphQLScalarType ''Int'') None)]\<rparr>
   \<and> property exampleVariables ''x'' = Some exampleObject
   \<and> getNamedType (Some exampleObject) = Some exampleObject
   \<and> info_type (getTypeInfo exampleVariables
        (ParseState ''ObjectField'' 0 (Some ''a'')
          (Some (ParseState ''ObjectValue'' 1 None
            (Some (ParseState ''Variable'' 2 (Some ''x'') None))))))
     = Some (GraphQLScalarType ''Int'')"
proof -
  let ?fa = "[(''a'', InputField ''a'' (GraphQLScalarType ''Int'') None)]"
  let ?fs = "[(''a'', InputField ''a'' (GraphQLScalarType ''Int'') None),
              (''b'', InputField ''b'' (GraphQLScalarType ''String'') (Some ''second''))]"
  let ?o = "ParseState ''ObjectValue'' 1 None (Some (variableEntry (Some ''x'') 2))"
  let ?f = "ParseState ''ObjectField'' 2 (Some ''b'') (Some ?o)"
  let ?init = "\<lparr>info_type = None, info_fields = None\<rparr>"
  note r = getTypeInfo_rules [where vt = exampleVariables]
  have chain: "getTypeInfo exampleVariables ?f
      = foldl (\<lambda>info st. visitState exampleVariables st info) ?init (ancestors ?f)"
    using r [where s = ?f] by blast
  have anc: "ancestors ?f = [documentOpen, variableEntry (Some ''x'') 2, ?o, ?f]"
    by (simp add: variableEntry_def documentOpen_def)
  have v1: "visitState exampleVariables documentOpen ?init = ?init"
    by (simp add: visitState_def documentOpen_def)
  have v2: "visitState exampleVariables (variableEntry (Some ''x'') 2) ?init
      = \<lparr>info_type = Some exampleObject, info_fields = None\<rparr>"
    using r [where st = "variableEntry (Some ''x'') 2" and info = ?init]
    by (simp add: variableEntry_def exampleVariables_def property_def)
  have v3: "visitState exampleVariables ?o \<lparr>info_type = Some exampleObject, info_fields = None\<rparr>
      = \<lparr>info_type = Some exampleObject, info_fields = Some ?fs\<rparr>"
    using r [where st = ?o and info = "\<lparr>info_type = Some exampleObject, info_fields = None\<rparr>"]
    by (simp add: exampleObject_def)
  have v4: "visitState exampleVariables ?f \<lparr>info_type = Some exampleObject, info_fields = Some ?fs\<rparr>
      = \<lparr>info_type = Some (GraphQLScalarType ''String''), info_fields = Some ?fs\<rparr>"
    using r [where st = ?f and y = "''b''" and fmap = ?fs
        and info = "\<lparr>info_type = Some exampleObject, info_fields = Some ?fs\<rparr>"]
    by (simp add: property_def)
  have c1: "getTypeInfo exampleVariables ?f
      = \<lparr>info_type = Some (GraphQLScalarType ''String''), info_fields = Some ?fs\<rparr>"
    by (simp only: chain anc foldl.simps v1 v2 v3 v4)
  have c2: "ancestors ?o = [documentOpen, variableEntry (Some ''x'') 2, ?o]"
    by (simp add: variableEntry_def documentOpen_def)
  have c3: "visitState exampleVariables (variableEntry (Some ''flag'') 2) ?init
      = \<lparr>info_type = Some (GraphQLNonNull GraphQLBoolean), info_fields = None\<rparr>"
    using r [where st = "variableEntry (Some ''flag'') 2" and info = ?init]
    by (simp add: variableEntry_def exampleVariables_def property_def)
  have c4: "visitState exampleVariables (ParseState ''ListValue'' 1 None None)
        \<lparr>info_type = Some (GraphQLNonNull (GraphQLList exampleEnum)), info_fields = None\<rparr>
     = \<lparr>info_type = Some exampleEnum, info_fields = None\<rparr>"
    using r [where st = "ParseState ''ListValue'' 1 None None"
        and info = "\<lparr>info_type = Some (GraphQLNonNull (GraphQLList exampleEnum)), info_fields = None\<rparr>"]
    by simp
  have c5: "visitState exampleVariables (ParseState ''ListValue'' 1 None None)
        \<lparr>info_type = Some exampleEnum, info_fields = None\<rparr>
     = \<lparr>info_type = None, info_fields = None\<rparr>"
    using r [where st = "ParseState ''ListValue'' 1 None None"
        and info = "\<lparr>info_type = Some exampleEnum, info_fields = None\<rparr>"]
    by (simp add: exampleEnum_def)
  have c6: "visitState exampleVariables (ParseState ''ObjectValue'' 1 None None)
        \<lparr>info_type = Some exampleEnum, info_fields = None\<rparr>
     = \<lparr>info_type = Some exampleEnum, info_fields = None\<rparr>"
    using r [where st = "ParseState ''ObjectValue'' 1 None None"
        and info = "\<lparr>info_type = Some exampleEnum, info_fields = None\<rparr>"]
    by (simp add: exampleEnum_def)
  have c7: "visitState exampleVariables (ParseState ''ObjectField'' 0 (Some ''c'') None)
        \<lparr>info_type = Some exampleObject, info_fields = Some ?fa\<rparr>
     = \<lparr>info_type = None, info_fields = Some ?fa\<rparr>"
    using r [where st = "ParseState ''ObjectField'' 0 (Some ''c'') None" and y = "''c''"
        and fmap = ?fa and info = "\<lparr>info_type = Some exampleObject, info_fields = Some ?fa\<rparr>"]
    by (simp add: property_def)
  have h1: "property exampleVariables ''x'' = Some exampleObject"
    by (simp add: exampleVariables_def property_def)
  have h2: "getNamedType (Some exampleObject) = Some exampleObject"
    by (simp add: exampleObject_def)
  have "property exampleVariables ''x'' = Some exampleObject
      \<and> getNamedType (Some exampleObject) = Some (GraphQLInputObjectType ''Point'' ?fs)
      \<and> ''a'' \<noteq> [] \<and> property ?fs ''a'' = Some (InputField ''a'' (GraphQLScalarType ''Int'') None)
      \<longrightarrow> info_type (getTypeInfo exampleVariables
        (ParseState ''ObjectField'' 0 (Some ''a'')
          (Some (ParseState ''ObjectValue'' 1 None
            (Some (ParseState ''Variable'' 2 (Some ''x'') None))))))
        = Some (field_type (InputField ''a'' (GraphQLScalarType ''Int'') None))"
    using r [where x = "''x''" and tx = exampleObject and nm = "''Point''" and fx = ?fs
        and fy = "''a''" and f = "InputField ''a'' (GraphQLScalarType ''Int'') None"
        and ?s3.0 = 0 and ?s2.0 = 1 and ?n2.0 = None and ?s1.0 = 2 and outer = None]
    by blast
  moreover have "getNamedType (Some exampleObject) = Some (GraphQLInputObjectType ''Point'' ?fs)"
    by (simp add: exampleObject_def)
  moreover have "property ?fs ''a'' = Some (InputField ''a'' (GraphQLScalarType ''Int'') None)"
    by (simp add: property_def)
  ultimately have c8: "info_type (getTypeInfo exampleVariables
        (ParseState ''ObjectField'' 0 (Some ''a'')
          (Some (ParseState ''ObjectValue'' 1 None
            (Some (ParseState ''Variable'' 2 (Some ''x'') None))))))
     = Some (GraphQLScalarType ''Int'')"
    using h1 by simp
  from c1 c2 c3 c4 c5 c6 c7 h1 h2 c8 show ?thesis by blast
qed

text \<open>
  \<^bold>\<open>C6\<close> as stated, for every request whose token state is \<^verbatim>\<open>Invalid\<close>, fails: the prior state
  may itself be \<^verbatim>\<open>Invalid\<close>. For the chain \<^verbatim>\<open>Document\<close> (step 0), \<^verbatim>\<open>Invalid\<close>, \<^verbatim>\<open>Invalid\<close>
  the resolver dispatches on the inner of the two \<^verbatim>\<open>Invalid\<close> states and returns no result,
  while resolving with the prior state as the token's state gives the open brace.
\<close>

theorem invalid_substitution_counterexample:
  "getVariablesHint candidatesOnly ()
     \<lparr>state = ParseState ''Invalid'' 0 None
        (Some (ParseState ''Invalid'' 0 None (Some documentStart)))\<rparr>
     \<lparr>variableToType = None\<rparr>
   \<noteq> getVariablesHint candidatesOnly ()
     \<lparr>state = ParseState ''Invalid'' 0 None (Some documentStart)\<rparr>
     \<lparr>variableToType = None\<rparr>"
  by (simp add: getVariablesHint_def dispatchState_def documentStart_def)

text \<open>
  \<^bold>\<open>C6\<close>, amended. When the token's state is \<^verbatim>\<open>Invalid\<close> and records a prior state that is not
  itself \<^verbatim>\<open>Invalid\<close>, the resolver dispatches on that prior state, and the result equals the
  result of resolving the same token with the prior state as its state, for any \<^verbatim>\<open>hintList\<close>
  that does not read \<^verbatim>\<open>token.state\<close>. In particular, when the prior state is \<^verbatim>\<open>Document\<close> at
  step 0, the list handed to \<^verbatim>\<open>hintList\<close> is the one candidate \<^verbatim>\<open>{\<close>.
\<close>

theorem invalid_substitution:
  assumes "kind (state tok) = ''Invalid''" and "prevState (state tok) = Some p"
    and "kind p \<noteq> ''Invalid''"
    and "\<forall>c t s l. hintList c (t\<lparr>state := s\<rparr>) l = hintList c t l"
  shows "dispatchState (state tok) = Some p
       \<and> getVariablesHint hintList cur tok opts = getVariablesHint hintList cur (tok\<lparr>state := p\<rparr>) opts
       \<and> (kind p = ''Document'' \<and> step p = 0 \<longrightarrow>
            getVariablesHint hintList cur tok opts =
              Inr (Some (hintList cur tok
                [\<lparr>hint_text = ''{'', hint_type = None, hint_description = None\<rparr>])))"
proof -
  have d: "dispatchState (state tok) = Some p"
    using assms(1,2) by (simp add: dispatchState_def)
  have d': "dispatchState (state (tok\<lparr>state := p\<rparr>)) = Some p"
    using assms(3) by (simp add: dispatchState_def)
  have ti: "getTypeInfo vt (state tok) = getTypeInfo vt p" for vt
    using assms(1,2) by (rule getTypeInfo_Invalid)
  have h: "hintList cur (tok\<lparr>state := p\<rparr>) l = hintList cur tok l" for l
    using assms(4) by simp
  have eq: "getVariablesHint hintList cur tok opts
          = getVariablesHint hintList cur (tok\<lparr>state := p\<rparr>) opts"
  proof (rule getVariablesHint_cong_token)
    show "dispatchState (state tok) = dispatchState (state (tok\<lparr>state := p\<rparr>))"
      using d d' by simp
    show "getTypeInfo vt (state tok) = getTypeInfo vt (state (tok\<lparr>state := p\<rparr>))" for vt
      using ti by simp
    show "hintList cur tok l = hintList cur (tok\<lparr>state := p\<rparr>) l" for l
      using h by simp
  qed
  have doc: "kind p = ''Document'' \<and> step p = 0 \<longrightarrow>
            getVariablesHint hintList cur tok opts =
              Inr (Some (hintList cur tok
                [\<lparr>hint_text = ''{'', hint_type = None, hint_description = None\<rparr>]))"
    using d by (simp add: getVariablesHint_def)
  from d eq doc show ?thesis by blast
qed

theorem invalid_substitution_witness:
  "kind (ParseState ''Invalid'' 0 None (Some documentStart)) = ''Invalid''
   \<and> kind documentStart \<noteq> ''Invalid''
   \<and> getVariablesHint candidatesOnly ()
        \<lparr>state = ParseState ''Invalid'' 0 None (Some documentStart)\<rparr> \<lparr>variableToType = None\<rparr>
      = getVariablesHint candidatesOnly () \<lparr>state = documentStart\<rparr> \<lparr>variableToType = None\<rparr>
   \<and> getVariablesHint candidatesOnly ()
        \<lparr>state = ParseState ''Invalid'' 0 None (Some documentStart)\<rparr> \<lparr>variableToType = None\<rparr>
      = Inr (Some [\<lparr>hint_text = ''{'', hint_type = None, hint_description = None\<rparr>])
   \<and> getVariablesHint candidatesOnly ()
        \<lparr>state = ParseState ''Invalid'' 0 None
           (Some (ParseState ''ObjectValue'' 1 None (Some (variableEntry (Some ''x'') 2))))\<rparr>
        \<lparr>variableToType = Some exampleVariables\<rparr>
      = getVariablesHint candidatesOnly ()
        \<lparr>state = ParseState ''ObjectValue'' 1 None (Some (variableEntry (Some ''x'') 2))\<rparr>
        \<lparr>variableToType = Some exampleVariables\<rparr>"
proof -
  let ?i = "ParseState ''Invalid'' 0 None (Some documentStart)"
  let ?o = "ParseState ''ObjectValue'' 1 None (Some (variableEntry (Some ''x'') 2))"
  let ?j = "ParseState ''Invalid'' 0 None (Some ?o)"
  have h: "\<forall>c t s l. (candidatesOnly :: unit \<Rightarrow> token \<Rightarrow> _) c (t\<lparr>state := s\<rparr>) l
             = candidatesOnly c t l"
    by (simp add: candidatesOnly_def)
  have a: "kind (state \<lparr>state = ?i\<rparr>) = ''Invalid''"
    and b: "prevState (state \<lparr>state = ?i\<rparr>) = Some documentStart"
    and c: "kind documentStart \<noteq> ''Invalid''"
    by (simp_all add: documentStart_def)
  have a': "kind (state \<lparr>state = ?j\<rparr>) = ''Invalid''"
    and b': "prevState (state \<lparr>state = ?j\<rparr>) = Some ?o"
    and c': "kind ?o \<noteq> ''Invalid''"
    by simp_all
  have k: "kind documentStart = ''Document'' \<and> step documentStart = 0"
    by (simp add: documentStart_def)
  note w1 = invalid_substitution [OF a b c h, of "()" "\<lparr>variableToType = None\<rparr>"]
  note w2 = invalid_substitution [OF a' b' c' h, of "()"
      "\<lparr>variableToType = Some exampleVariables\<rparr>"]
  have e1: "getVariablesHint candidatesOnly () \<lparr>state = ?i\<rparr> \<lparr>variableToType = None\<rparr>
      = getVariablesHint candidatesOnly () \<lparr>state = documentStart\<rparr> \<lparr>variableToType = None\<rparr>"
    using w1 by simp
  have "getVariablesHint candidatesOnly () \<lparr>state = ?i\<rparr> \<lparr>variableToType = None\<rparr>
      = Inr (Some (candidatesOnly () \<lparr>state = ?i\<rparr>
          [\<lparr>hint_text = ''{'', hint_type = None, hint_description = None\<rparr>]))"
    using w1 k by blast
  then have e2: "getVariablesHint candidatesOnly () \<lparr>state = ?i\<rparr> \<lparr>variableToType = None\<rparr>
      = Inr (Some [\<lparr>hint_text = ''{'', hint_type = None, hint_description = None\<rparr>])"
    by (simp only: candidatesOnly_def)
  have e3: "getVariablesHint candidatesOnly () \<lparr>state = ?j\<rparr>
        \<lparr>variableToType = Some exampleVariables\<rparr>
      = getVariablesHint candidatesOnly () \<lparr>state = ?o\<rparr>
        \<lparr>variableToType = Some exampleVariables\<rparr>"
    using w2 by simp
  have a0: "kind ?i = ''Invalid''"
    by simp
  from a0 c e1 e2 e3 show ?thesis by blast
qed

text \<open>
  \<^bold>\<open>C8\<close> as stated, for every finite chain without cycles, fails: a token whose state is
  \<^verbatim>\<open>Invalid\<close> and records no prior state is such a chain, and there the resolver reads
  \<^verbatim>\<open>kind\<close> of the absent prior state (line 59), which raises.
\<close>

theorem lone_invalid_raises:
  "getVariablesHint candidatesOnly () \<lparr>state = ParseState ''Invalid'' 0 None None\<rparr>
     \<lparr>variableToType = Some exampleVariables\<rparr> = Inl TypeError"
  by (simp add: getVariablesHint_def dispatchState_def)

text \<open>
  \<^bold>\<open>C8\<close>, amended. When the token's state, if \<^verbatim>\<open>Invalid\<close>, records a prior state, resolution
  raises nothing: it returns a result or none. Every lookup that finds nothing degrades: a
  \<^verbatim>\<open>Variable\<close> name absent from the mapping leaves no type; an \<^verbatim>\<open>ObjectField\<close> without a
  field set, or with a name absent from it, leaves no type; a \<^verbatim>\<open>ListValue\<close> on a type that is
  not a list leaves no type; an \<^verbatim>\<open>ObjectValue\<close> on a type whose named form is not an input
  object leaves no fields; and with no type and no fields recovered, every state dispatched on
  other than the variable-name positions yields no result. In particular a \<^verbatim>\<open>Variable\<close> whose
  name is absent from the mapping, followed by an \<^verbatim>\<open>ObjectValue\<close> state, recovers no fields
  and yields no result.
\<close>

theorem lookups_degrade:
  "(dispatchState (state tok) = Some st \<longrightarrow> (\<exists>r. getVariablesHint hintList cur tok opts = Inr r))
   \<and> (kind s = ''Variable'' \<and> property vt (propertyKey (name s)) = None
        \<longrightarrow> info_type (visitState vt s info) = None)
   \<and> (kind s = ''ObjectField''
        \<and> (info_fields info = None
            \<or> (\<exists>fs. info_fields info = Some fs \<and> property fs (propertyKey (name s)) = None))
        \<longrightarrow> info_type (visitState vt s info) = None)
   \<and> (kind s = ''ListValue'' \<and> (\<forall>t. getNullableType (info_type info) \<noteq> Some (GraphQLList t))
        \<longrightarrow> info_type (visitState vt s info) = None)
   \<and> (kind s = ''ObjectValue''
        \<and> (\<forall>n fs. getNamedType (info_type info) \<noteq> Some (GraphQLInputObjectType n fs))
        \<longrightarrow> info_fields (visitState vt s info) = None)
   \<and> (variableToType opts = Some vt \<and> dispatchState (state tok) = Some st
        \<and> getTypeInfo vt (state tok) = \<lparr>info_type = None, info_fields = None\<rparr>
        \<and> kind st \<noteq> ''Document'' \<and> (kind st = ''Variable'' \<longrightarrow> step st \<noteq> 0)
        \<longrightarrow> getVariablesHint hintList cur tok opts = Inr None)
   \<and> (variableToType opts = Some vt \<and> property vt x = None
        \<and> state tok = ParseState ''ObjectValue'' s2 n2 (Some (ParseState ''Variable'' s1 (Some x) outer))
        \<longrightarrow> info_fields (getTypeInfo vt (state tok)) = None
            \<and> getVariablesHint hintList cur tok opts = Inr None)"
proof (intro conjI impI)
  assume "dispatchState (state tok) = Some st"
  then show "\<exists>r. getVariablesHint hintList cur tok opts = Inr r"
    by (rule getVariablesHint_returns)
next
  assume "kind s = ''Variable'' \<and> property vt (propertyKey (name s)) = None"
  then show "info_type (visitState vt s info) = None"
    by (simp add: visitState_Variable)
next
  assume "kind s = ''ObjectField''
        \<and> (info_fields info = None
            \<or> (\<exists>fs. info_fields info = Some fs \<and> property fs (propertyKey (name s)) = None))"
  then show "info_type (visitState vt s info) = None"
    by (auto simp add: visitState_ObjectField)
next
  assume "kind s = ''ListValue'' \<and> (\<forall>t. getNullableType (info_type info) \<noteq> Some (GraphQLList t))"
  then show "info_type (visitState vt s info) = None"
    by (auto simp add: visitState_ListValue split: option.splits gql_type.splits)
next
  assume "kind s = ''ObjectValue''
        \<and> (\<forall>n fs. getNamedType (info_type info) \<noteq> Some (GraphQLInputObjectType n fs))"
  then show "info_fields (visitState vt s info) = None"
    by (auto simp add: visitState_ObjectValue split: option.splits gql_type.splits)
next
  assume "variableToType opts = Some vt \<and> dispatchState (state tok) = Some st
        \<and> getTypeInfo vt (state tok) = \<lparr>info_type = None, info_fields = None\<rparr>
        \<and> kind st \<noteq> ''Document'' \<and> (kind st = ''Variable'' \<longrightarrow> step st \<noteq> 0)"
  then show "getVariablesHint hintList cur tok opts = Inr None"
    by (simp add: getVariablesHint_def Let_def)
next
  assume a: "variableToType opts = Some vt \<and> property vt x = None
        \<and> state tok = ParseState ''ObjectValue'' s2 n2 (Some (ParseState ''Variable'' s1 (Some x) outer))"
  let ?v = "ParseState ''Variable'' s1 (Some x) outer"
  have v: "info_type (getTypeInfo vt ?v) = None"
    using a by (cases outer) (simp_all add: getTypeInfo_def visitState_Variable)
  have f: "info_fields (getTypeInfo vt (state tok)) = None"
    using a v by (simp add: getTypeInfo_inner visitState_ObjectValue)
  have d: "dispatchState (state tok) = Some (state tok)"
    using a by (simp add: dispatchState_def)
  show "info_fields (getTypeInfo vt (state tok)) = None"
    by (rule f)
  have k: "kind (state tok) = ''ObjectValue''" and o: "variableToType opts = Some vt"
    using a by simp_all
  show "getVariablesHint hintList cur tok opts = Inr None"
    using k o f d by (simp add: getVariablesHint_def Let_def)
qed

theorem lookups_degrade_witness:
  "property exampleVariables ''missing'' = None
   \<and> info_type (visitState exampleVariables (variableEntry (Some ''missing'') 2)
        \<lparr>info_type = Some exampleObject, info_fields = None\<rparr>) = None
   \<and> info_type (visitState exampleVariables (ParseState ''ObjectField'' 0 (Some ''c'') None)
        \<lparr>info_type = Some exampleObject,
          info_fields = Some [(''a'', InputField ''a'' (GraphQLScalarType ''Int'') None)]\<rparr>) = None
   \<and> info_type (visitState exampleVariables (ParseState ''ListValue'' 1 None None)
        \<lparr>info_type = Some exampleObject, info_fields = None\<rparr>) = None
   \<and> info_fields (visitState exampleVariables (ParseState ''ObjectValue'' 1 None None)
        \<lparr>info_type = Some exampleEnum, info_fields = None\<rparr>) = None
   \<and> getVariablesHint candidatesOnly () \<lparr>state = variableEntry (Some ''missing'') 2\<rparr>
        \<lparr>variableToType = Some exampleVariables\<rparr> = Inr None
   \<and> info_fields (getTypeInfo exampleVariables
        (ParseState ''ObjectValue'' 1 None (Some (variableEntry (Some ''missing'') 2)))) = None
   \<and> getVariablesHint candidatesOnly ()
        \<lparr>state = ParseState ''ObjectValue'' 1 None (Some (variableEntry (Some ''missing'') 2))\<rparr>
        \<lparr>variableToType = Some exampleVariables\<rparr> = Inr None"
proof -
  let ?m = "variableEntry (Some ''missing'') 2"
  let ?o = "ParseState ''ObjectValue'' 1 None (Some ?m)"
  let ?opts = "\<lparr>variableToType = Some exampleVariables\<rparr>"
  let ?fa = "[(''a'', InputField ''a'' (GraphQLScalarType ''Int'') None)]"
  note r = lookups_degrade [where vt = exampleVariables and opts = ?opts
      and hintList = candidatesOnly and cur = "()"]
  note r' = r [where tok = "\<lparr>state = ?m\<rparr>" and st = ?m and x = "''missing''" and ?s2.0 = 1
      and ?n2.0 = None and ?s1.0 = 2 and outer = None]
  have m: "property exampleVariables ''missing'' = None"
    by (simp add: exampleVariables_def property_def)
  have c2: "info_type (visitState exampleVariables ?m
        \<lparr>info_type = Some exampleObject, info_fields = None\<rparr>) = None"
    using m r' [where s = ?m and info = "\<lparr>info_type = Some exampleObject, info_fields = None\<rparr>"]
    by (simp add: variableEntry_def)
  have c3: "info_type (visitState exampleVariables (ParseState ''ObjectField'' 0 (Some ''c'') None)
        \<lparr>info_type = Some exampleObject, info_fields = Some ?fa\<rparr>) = None"
    using r' [where s = "ParseState ''ObjectField'' 0 (Some ''c'') None"
        and info = "\<lparr>info_type = Some exampleObject, info_fields = Some ?fa\<rparr>"]
    by (simp add: property_def)
  have c4: "info_type (visitState exampleVariables (ParseState ''ListValue'' 1 None None)
        \<lparr>info_type = Some exampleObject, info_fields = None\<rparr>) = None"
    using r' [where s = "ParseState ''ListValue'' 1 None None"
        and info = "\<lparr>info_type = Some exampleObject, info_fields = None\<rparr>"]
    by (simp add: exampleObject_def)
  have c5: "info_fields (visitState exampleVariables (ParseState ''ObjectValue'' 1 None None)
        \<lparr>info_type = Some exampleEnum, info_fields = None\<rparr>) = None"
    using r' [where s = "ParseState ''ObjectValue'' 1 None None"
        and info = "\<lparr>info_type = Some exampleEnum, info_fields = None\<rparr>"]
    by (simp add: exampleEnum_def)
  have t: "getTypeInfo exampleVariables ?m = \<lparr>info_type = None, info_fields = None\<rparr>"
    by (simp add: getTypeInfo_def visitState_def variableEntry_def documentOpen_def
        exampleVariables_def property_def)
  have d: "dispatchState (state \<lparr>state = ?m\<rparr>) = Some ?m"
    by (simp add: dispatchState_def variableEntry_def)
  have c6: "getVariablesHint candidatesOnly () \<lparr>state = ?m\<rparr> ?opts = Inr None"
    using t d r [where tok = "\<lparr>state = ?m\<rparr>" and st = ?m and s = ?m
        and info = "\<lparr>info_type = None, info_fields = None\<rparr>" and x = "''missing''" and ?s2.0 = 1
        and ?n2.0 = None and ?s1.0 = 2 and outer = None]
    by (simp add: variableEntry_def)
  have c7: "info_fields (getTypeInfo exampleVariables ?o) = None
      \<and> getVariablesHint candidatesOnly () \<lparr>state = ?o\<rparr> ?opts = Inr None"
    using m r [where tok = "\<lparr>state = ?o\<rparr>" and x = "''missing''" and ?s2.0 = 1
        and ?n2.0 = None and ?s1.0 = 2 and outer = "Some documentOpen" and st = ?o and s = ?o
        and info = "\<lparr>info_type = None, info_fields = None\<rparr>"]
    by (simp add: variableEntry_def)
  from m c2 c3 c4 c5 c6 c7 show ?thesis by blast
qed

text \<open>
  \<^bold>\<open>C9.\<close> Resolution writes to nothing it is given, and its result is a function of the
  mapping and the chain. Over a store in which the token's state heads a chain representing
  \<open>s\<close> and the mapping of the options, if any, is an object \<open>vt\<close> of the store: resolution
  returns; its result is the value of \<open>getVariablesHint\<close> on \<open>vt\<close> and \<open>s\<close>; every object that
  existed before is unchanged (the store only grows), so the chain still represents \<open>s\<close> and the
  mapping is still \<open>vt\<close>; resolving again in the store the first run left gives the identical
  result; and the info object \<open>getTypeInfo\<close> creates holds the value of the first model's
  \<open>getTypeInfo\<close> on \<open>vt\<close> and \<open>s\<close>.
\<close>

theorem resolution_pure:
  assumes r: "reprs h (stateRef tok) s"
    and o: "rel_option (\<lambda>vr vt. dictAt h vr = Some vt) (variableToTypeRef opts) (variableToType opts')"
  shows "\<exists>res h' h''.
           getVariablesHint_store hintList cur tok opts h = Some (res, h')
         \<and> res = getVariablesHint (\<lambda>c t. hintList c tok) cur \<lparr>state = s\<rparr> opts'
         \<and> take (length h) h' = h
         \<and> reprs h' (stateRef tok) s
         \<and> rel_option (\<lambda>vr vt. dictAt h' vr = Some vt) (variableToTypeRef opts) (variableToType opts')
         \<and> getVariablesHint_store hintList cur tok opts h' = Some (res, h'')
         \<and> (variableToTypeRef opts = Some vr \<and> variableToType opts' = Some vt \<longrightarrow>
              getTypeInfo_store vr (stateRef tok) h
                = Some (length h, h @ [infoObj (getTypeInfo vt s)]))"
proof -
  let ?res = "getVariablesHint (\<lambda>c t. hintList c tok) cur \<lparr>state = s\<rparr> opts'"
  from getVariablesHint_store_refines [OF r o, of hintList cur]
  obtain h' where 1: "getVariablesHint_store hintList cur tok opts h = Some (?res, h')"
    and h': "h' = h \<or> (\<exists>vr vt. variableToTypeRef opts = Some vr \<and> dictAt h vr = Some vt
                              \<and> h' = h @ [infoObj (getTypeInfo vt s)])"
    by (elim exE conjE)
  from h' have "\<exists>ys. h' = h @ ys"
  proof
    assume "h' = h"
    then have "h' = h @ []" by simp
    then show ?thesis ..
  next
    assume "\<exists>vr vt. variableToTypeRef opts = Some vr \<and> dictAt h vr = Some vt
                              \<and> h' = h @ [infoObj (getTypeInfo vt s)]"
    then show ?thesis by blast
  qed
  then obtain ys where ys: "h' = h @ ys" ..
  have t: "take (length h) h' = h"
    using ys by simp
  have r': "reprs h' (stateRef tok) s"
    unfolding ys using r by (rule reprs_append)
  have d: "dictAt h' a = Some b" if "dictAt h a = Some b" for a b
    unfolding ys using that by (simp add: reads_append(5) [OF dictAt_bound [OF that]])
  have o': "rel_option (\<lambda>vr vt. dictAt h' vr = Some vt) (variableToTypeRef opts) (variableToType opts')"
    using o by (rule option.rel_mono_strong) (rule d)
  from getVariablesHint_store_refines [OF r' o', of hintList cur]
  obtain h'' where 2: "getVariablesHint_store hintList cur tok opts h' = Some (?res, h'')"
    by (elim exE conjE)
  have 3: "variableToTypeRef opts = Some vr \<and> variableToType opts' = Some vt \<longrightarrow>
              getTypeInfo_store vr (stateRef tok) h
                = Some (length h, h @ [infoObj (getTypeInfo vt s)])"
  proof
    assume a: "variableToTypeRef opts = Some vr \<and> variableToType opts' = Some vt"
    with o have "dictAt h vr = Some vt" by simp
    with r show "getTypeInfo_store vr (stateRef tok) h
                = Some (length h, h @ [infoObj (getTypeInfo vt s)])"
      by (rule getTypeInfo_store_refines)
  qed
  show ?thesis
    apply (rule exI [of _ ?res])
    apply (rule exI [of _ h'])
    apply (rule exI [of _ h''])
    using 1 t r' o' 2 3 apply (intro conjI)
          apply assumption+
     apply (rule refl)
          apply assumption+
    done
qed


theorem resolution_pure_witness:
  "reprs exampleStore 3 (ParseState ''ObjectValue'' 1 None (Some (variableEntry (Some ''x'') 2)))
   \<and> dictAt exampleStore 0 = Some exampleVariables
   \<and> (\<exists>h' h''.
         getVariablesHint_store candidatesOnly () \<lparr>stateRef = 3\<rparr> \<lparr>variableToTypeRef = Some 0\<rparr>
           exampleStore
         = Some (Inr (Some
             [\<lparr>hint_text = dquote @ ''a'' @ dquote @ '': '',
                hint_type = Some (GraphQLScalarType ''Int''), hint_description = None\<rparr>,
              \<lparr>hint_text = dquote @ ''b'' @ dquote @ '': '',
                hint_type = Some (GraphQLScalarType ''String''),
                hint_description = Some ''second''\<rparr>]), h')
       \<and> take (length exampleStore) h' = exampleStore
       \<and> getVariablesHint_store candidatesOnly () \<lparr>stateRef = 3\<rparr> \<lparr>variableToTypeRef = Some 0\<rparr> h'
         = Some (Inr (Some
             [\<lparr>hint_text = dquote @ ''a'' @ dquote @ '': '',
                hint_type = Some (GraphQLScalarType ''Int''), hint_description = None\<rparr>,
              \<lparr>hint_text = dquote @ ''b'' @ dquote @ '': '',
                hint_type = Some (GraphQLScalarType ''String''),
                hint_description = Some ''second''\<rparr>]), h''))
   \<and> getTypeInfo_store 0 3 exampleStore
     = Some (4, exampleStore @
         [InfoObj (Some exampleObject)
            (Some [(''a'', InputField ''a'' (GraphQLScalarType ''Int'') None),
                   (''b'', InputField ''b'' (GraphQLScalarType ''String'') (Some ''second''))])])"
proof -
  let ?s = "ParseState ''ObjectValue'' 1 None (Some (variableEntry (Some ''x'') 2))"
  let ?tok = "\<lparr>stateRef = 3\<rparr>"
  let ?opts = "\<lparr>variableToTypeRef = Some 0\<rparr>"
  let ?opts' = "\<lparr>variableToType = Some exampleVariables\<rparr>"
  have r1: "reprs exampleStore 1 documentOpen"
    unfolding documentOpen_def by (rule reprs.outermost) (simp_all add: exampleStore_def)
  have r2: "reprs exampleStore 2 (variableEntry (Some ''x'') 2)"
    unfolding variableEntry_def by (rule reprs.inner [OF _ _ r1]) (simp_all add: exampleStore_def)
  have r3: "reprs exampleStore (stateRef ?tok) ?s"
    by (simp, rule reprs.inner [OF _ _ r2]) (simp_all add: exampleStore_def)
  have d: "dictAt exampleStore 0 = Some exampleVariables"
    by (simp add: dictAt_def exampleStore_def)
  have o: "rel_option (\<lambda>vr vt. dictAt exampleStore vr = Some vt)
             (variableToTypeRef ?opts) (variableToType ?opts')"
    using d by simp
  from resolution_pure [OF r3 o, of candidatesOnly "()" 0 exampleVariables]
  obtain res h' h'' where
    a: "getVariablesHint_store candidatesOnly () ?tok ?opts exampleStore = Some (res, h')"
    and b: "res = getVariablesHint (\<lambda>c t. candidatesOnly c ?tok) () \<lparr>state = ?s\<rparr> ?opts'"
    and c: "take (length exampleStore) h' = exampleStore"
    and e: "getVariablesHint_store candidatesOnly () ?tok ?opts h' = Some (res, h'')"
    and f: "variableToTypeRef ?opts = Some 0 \<and> variableToType ?opts' = Some exampleVariables \<longrightarrow>
            getTypeInfo_store 0 (stateRef ?tok) exampleStore
              = Some (length exampleStore, exampleStore @ [infoObj (getTypeInfo exampleVariables ?s)])"
    by (elim exE conjE)
  note b' = b [unfolded example_pure_result]
  have g: "getTypeInfo_store 0 3 exampleStore
     = Some (4, exampleStore @
         [InfoObj (Some exampleObject)
            (Some [(''a'', InputField ''a'' (GraphQLScalarType ''Int'') None),
                   (''b'', InputField ''b'' (GraphQLScalarType ''String'') (Some ''second''))])])"
    using f by (simp add: example_pure_info infoObj_def exampleStore_def)
  have r3': "reprs exampleStore 3 ?s"
    using r3 by simp
  from a c e show ?thesis
    unfolding b' using r3' d g by blast
qed

end
